theory Spec2Isabelle
  imports Complex_Main "HOL-Library.Sublist"
begin

section \<open>JavaScript values and strings\<close>

text \<open>
  The form handlers take \<^verbatim>\<open>value: any\<close> and store it under a computed key, so the form data
  is modelled as the JavaScript object it is at run time: a map from property names to
  values. The TypeScript interface \<^verbatim>\<open>FormData\<close> becomes the predicate \<open>FormData_typed\<close> below.

  Strings are lists of 8-bit characters, that is the code units U+0000 to U+00FF; white space
  and lower-casing are ECMAScript's, restricted to that range. Numbers are the decimal
  values of their literals (no arithmetic is ever done on them; NaN and the infinities are
  left out), a \<^verbatim>\<open>Date\<close> is its time value,
  and \<open>Obj\<close> stands for any other object, known by its identity only.
\<close>

datatype jsval =
    Undefined
  | Null
  | Bool bool
  | Num real
  | Str string
  | DateObj int
  | Obj nat

datatype js_error = TypeError | SyntaxError

text \<open>ToBoolean: what \<^verbatim>\<open>!v\<close>, \<^verbatim>\<open>v || d\<close> and \<^verbatim>\<open>if (v)\<close> test.\<close>

fun truthy :: "jsval \<Rightarrow> bool" where
  "truthy Undefined = False"
| "truthy Null = False"
| "truthy (Bool b) = b"
| "truthy (Num x) = (x \<noteq> 0)"
| "truthy (Str s) = (s \<noteq> [])"
| "truthy (DateObj t) = True"
| "truthy (Obj r) = True"

text \<open>Reading a property: an absent own property reads as \<^verbatim>\<open>undefined\<close>.\<close>

definition get_prop :: "(string \<rightharpoonup> jsval) \<Rightarrow> string \<Rightarrow> jsval" where
  "get_prop obj k = (case obj k of None \<Rightarrow> Undefined | Some v \<Rightarrow> v)"

text \<open>
  White space as \<^verbatim>\<open>String.prototype.trim\<close> and the regular expression class \<^verbatim>\<open>\s\<close> see it
  (WhiteSpace and LineTerminator): TAB, LF, VT, FF, CR, SP and NBSP below U+0100.
\<close>

definition isWhiteSpace :: "char \<Rightarrow> bool" where
  "isWhiteSpace c = (of_char c \<in> {9, 10, 11, 12, 13, 32, 160 :: nat})"

definition trim :: "string \<Rightarrow> string" where
  "trim s = rev (dropWhile isWhiteSpace (rev (dropWhile isWhiteSpace s)))"

text \<open>
  \<^verbatim>\<open>toLowerCase\<close>: A to Z and the Latin-1 capitals U+00C0 to U+00DE (without the
  multiplication sign U+00D7) move up by 32; every other code unit below U+0100 stays.
\<close>

definition toLowerCase_char :: "char \<Rightarrow> char" where
  "toLowerCase_char c =
     (let n = (of_char c :: nat)
      in if (65 \<le> n \<and> n \<le> 90) \<or> (192 \<le> n \<and> n \<le> 222 \<and> n \<noteq> 215)
         then char_of (n + 32) else c)"

definition toLowerCase :: "string \<Rightarrow> string" where
  "toLowerCase s = map toLowerCase_char s"

text \<open>\<^verbatim>\<open>s.includes(t)\<close>: \<open>t\<close> occurs in \<open>s\<close> as a contiguous run.\<close>

fun String_includes :: "string \<Rightarrow> string \<Rightarrow> bool" where
  "String_includes [] t = (t = [])"
| "String_includes (x # xs) t = (prefix t (x # xs) \<or> String_includes xs t)"

text \<open>
  \<^verbatim>\<open>n.toString()\<close> for an integer \<open>n\<close> of fewer than 22 digits: its decimal digits, after a
  minus sign when it is negative.
\<close>

function nat_digits :: "nat \<Rightarrow> string" where
  "nat_digits n =
     (if n < 10 then [char_of (48 + n)]
      else nat_digits (n div 10) @ [char_of (48 + n mod 10)])"
  by pat_completeness auto
termination
  by (relation "measure id") auto

definition Number_toString :: "int \<Rightarrow> string" where
  "Number_toString i =
     (if i < 0 then CHR ''-'' # nat_digits (nat (- i)) else nat_digits (nat i))"

subsection \<open>Regular expressions\<close>

text \<open>
  The fragment the source uses: a sequence of items, each a character class or a literal
  character, alone or under \<^verbatim>\<open>+\<close>. \<open>match_item\<close> returns what is left of the input after
  every way the item can match at its start (longest first, as the greedy \<^verbatim>\<open>+\<close> tries
  them); \<open>RegExp_test\<close> is \<^verbatim>\<open>re.test(s)\<close> for a pattern without anchors: a match may start
  at any position.
\<close>

datatype char_class = NonSpace | Literal char

datatype rx_item = Single char_class | Plus char_class

type_synonym regex = "rx_item list"

fun class_matches :: "char_class \<Rightarrow> char \<Rightarrow> bool" where
  "class_matches NonSpace c = (\<not> isWhiteSpace c)"
| "class_matches (Literal l) c = (c = l)"

fun match_item :: "rx_item \<Rightarrow> string \<Rightarrow> string list" where
  "match_item (Single k) [] = []"
| "match_item (Single k) (c # cs) = (if class_matches k c then [cs] else [])"
| "match_item (Plus k) [] = []"
| "match_item (Plus k) (c # cs) =
     (if class_matches k c then match_item (Plus k) cs @ [cs] else [])"

fun match_seq :: "regex \<Rightarrow> string \<Rightarrow> string list" where
  "match_seq [] s = [s]"
| "match_seq (i # r) s = concat (map (match_seq r) (match_item i s))"

definition match_here :: "regex \<Rightarrow> string \<Rightarrow> bool" where
  "match_here r s = (match_seq r s \<noteq> [])"

fun RegExp_test :: "regex \<Rightarrow> string \<Rightarrow> bool" where
  "RegExp_test r [] = match_here r []"
| "RegExp_test r (c # cs) = (match_here r (c # cs) \<or> RegExp_test r cs)"

text \<open>The literal \<^verbatim>\<open>/\S+@\S+\.\S+/\<close> of \<^verbatim>\<open>validateCurrentStep\<close>.\<close>

definition email_regex :: regex where
  "email_regex =
     [Plus NonSpace, Single (Literal CHR ''@''), Plus NonSpace,
      Single (Literal CHR ''.''), Plus NonSpace]"

section \<open>The multi-step form\<close>

text \<open>
  The component state of \<^verbatim>\<open>MultiStepForm\<close>: three \<^verbatim>\<open>useState\<close> cells. The step index is a
  JavaScript number, an integer here. \<open>errors\<close> is the \<^verbatim>\<open>Record<string, string>\<close>.
\<close>

record form_state =
  currentStep :: int
  formData :: "string \<rightharpoonup> jsval"
  errors :: "string \<rightharpoonup> string"

definition steps :: "string list" where
  "steps = [''Personal Information'', ''Birth Details'', ''Birth Location'']"

definition initialFormData :: "string \<rightharpoonup> jsval" where
  "initialFormData =
     [''name'' \<mapsto> Str [], ''email'' \<mapsto> Str [], ''birthDate'' \<mapsto> Undefined,
      ''birthTime'' \<mapsto> Str [], ''birthCity'' \<mapsto> Str [], ''birthCountry'' \<mapsto> Str [],
      ''latitude'' \<mapsto> Null, ''longitude'' \<mapsto> Null]"

definition initial_state :: form_state where
  "initial_state = \<lparr>currentStep = 0, formData = initialFormData, errors = Map.empty\<rparr>"

text \<open>
  What a handler does besides setting state: toasts, the router, local storage and timers.
  \<open>SetTimeout es d\<close> asks for the effects \<open>es\<close> after \<open>d\<close> milliseconds.
\<close>

datatype effect =
    ToastSuccess string string
  | ToastInfo string
  | RouterPush string
  | LocalStorageSetItem string string
  | SetTimeout "effect list" nat

text \<open>
  \<^verbatim>\<open>validateCurrentStep\<close>. \<open>required\<close> is \<^verbatim>\<open>if (!formData.f.trim()) newErrors[f] = msg\<close>: the
  call of \<^verbatim>\<open>trim\<close> throws a TypeError on a value that is not a string. The function sets
  \<open>errors\<close> and returns whether the new map has no key.
\<close>

definition required :: "(string \<rightharpoonup> jsval) \<Rightarrow> string \<Rightarrow> string \<Rightarrow>
    (string \<rightharpoonup> string) \<Rightarrow> js_error + (string \<rightharpoonup> string)" where
  "required fd f msg newErrors =
     (case get_prop fd f of
        Str s \<Rightarrow> Inr (if trim s = [] then newErrors(f \<mapsto> msg) else newErrors)
      | _ \<Rightarrow> Inl TypeError)"

definition newErrors_of :: "form_state \<Rightarrow> js_error + (string \<rightharpoonup> string)" where
  "newErrors_of s =
     (let fd = formData s in
      if currentStep s = 0 then
        (case required fd ''name'' ''Name is required'' Map.empty of
           Inl e \<Rightarrow> Inl e
         | Inr e1 \<Rightarrow>
            (case get_prop fd ''email'' of
               Str em \<Rightarrow>
                 if trim em = [] then Inr (e1(''email'' \<mapsto> ''Email is required''))
                 else if \<not> RegExp_test email_regex em
                   then Inr (e1(''email'' \<mapsto> ''Email is invalid''))
                 else Inr e1
             | _ \<Rightarrow> Inl TypeError))
      else if currentStep s = 1 then
        (let e1 = (if \<not> truthy (get_prop fd ''birthDate'')
                   then [''birthDate'' \<mapsto> ''Birth date is required''] else Map.empty)
         in Inr (if \<not> truthy (get_prop fd ''birthTime'')
                 then e1(''birthTime'' \<mapsto> ''Birth time is required'') else e1))
      else if currentStep s = 2 then
        (case required fd ''birthCity'' ''Birth city is required'' Map.empty of
           Inl e \<Rightarrow> Inl e
         | Inr e1 \<Rightarrow> required fd ''birthCountry'' ''Birth country is required'' e1)
      else Inr Map.empty)"

definition validateCurrentStep :: "form_state \<Rightarrow> js_error + (form_state \<times> bool)" where
  "validateCurrentStep s =
     (case newErrors_of s of
        Inl e \<Rightarrow> Inl e
      | Inr newErrors \<Rightarrow> Inr (s\<lparr>errors := newErrors\<rparr>, dom newErrors = {}))"

definition handleSubmit :: "form_state \<Rightarrow> js_error + (form_state \<times> effect list)" where
  "handleSubmit s =
     (case validateCurrentStep s of
        Inl e \<Rightarrow> Inl e
      | Inr (s1, ok) \<Rightarrow>
          if ok then
            Inr (s1, [ToastSuccess ''Form submitted successfully!''
                        ''Redirecting to your results...'',
                      SetTimeout [RouterPush ''/results''] 1500])
          else Inr (s1, []))"

definition handleNext :: "form_state \<Rightarrow> js_error + (form_state \<times> effect list)" where
  "handleNext s =
     (case validateCurrentStep s of
        Inl e \<Rightarrow> Inl e
      | Inr (s1, ok) \<Rightarrow>
          if ok then
            (if currentStep s < int (length steps) - 1
             then Inr (s1\<lparr>currentStep := currentStep s1 + 1\<rparr>, [])
             else handleSubmit s1)
          else Inr (s1, []))"

definition handlePrevious :: "form_state \<Rightarrow> form_state" where
  "handlePrevious s =
     (if currentStep s > 0 then s\<lparr>currentStep := currentStep s - 1\<rparr> else s)"

text \<open>
  \<^verbatim>\<open>handleUpdateFormData\<close>. The test \<^verbatim>\<open>errors[field]\<close> reads the \<open>errors\<close> of the render the
  handler was created in (\<open>c\<close>), while both setters are functional updates of the state as
  it is when they run (\<open>s\<close>). A message is truthy when it is not the empty string. A name
  inherited from \<^verbatim>\<open>Object.prototype\<close> also tests truthy; the \<^verbatim>\<open>delete\<close> then finds no own
  property and the copy equals \<open>errors\<close>, which is what the model returns.
\<close>

definition handleUpdateFormData ::
    "form_state \<Rightarrow> string \<Rightarrow> jsval \<Rightarrow> form_state \<Rightarrow> form_state" where
  "handleUpdateFormData c field v s =
     (let s1 = s\<lparr>formData := (formData s)(field \<mapsto> v)\<rparr>
      in case errors c field of
           Some msg \<Rightarrow> if msg \<noteq> [] then s1\<lparr>errors := (errors s1)(field := None)\<rparr> else s1
         | None \<Rightarrow> s1)"

text \<open>One call from an event handler: the render's state is the current state.\<close>

definition updateFormData :: "string \<Rightarrow> jsval \<Rightarrow> form_state \<Rightarrow> form_state" where
  "updateFormData field v s = handleUpdateFormData s field v s"

text \<open>
  \<^verbatim>\<open>handleSaveProgress\<close>. \<^verbatim>\<open>JSON.stringify\<close> is the runtime's: it is a parameter.
\<close>

definition handleSaveProgress ::
    "((string \<rightharpoonup> jsval) \<Rightarrow> string) \<Rightarrow> form_state \<Rightarrow> form_state \<times> effect list" where
  "handleSaveProgress JSON_stringify s =
     (s, [LocalStorageSetItem ''kundaliFormData'' (JSON_stringify (formData s)),
          LocalStorageSetItem ''kundaliFormStep'' (Number_toString (currentStep s)),
          ToastSuccess ''Progress saved!'' ''You can resume from this point later.''])"

definition handleReset :: "form_state \<Rightarrow> form_state \<times> effect list" where
  "handleReset s =
     (s\<lparr>formData := initialFormData, currentStep := 0, errors := Map.empty\<rparr>,
      [ToastInfo ''Form has been reset''])"

section \<open>The location step\<close>

text \<open>An entry of \<^verbatim>\<open>mockData\<close>, and the list itself.\<close>

record location =
  city :: string
  country :: string
  lat :: real
  lng :: real

definition mockData :: "location list" where
  "mockData =
     [\<lparr>city = ''New York'', country = ''United States'', lat = 40.7128, lng = - 74.0060\<rparr>,
      \<lparr>city = ''London'', country = ''United Kingdom'', lat = 51.5074, lng = - 0.1278\<rparr>,
      \<lparr>city = ''Tokyo'', country = ''Japan'', lat = 35.6762, lng = 139.6503\<rparr>,
      \<lparr>city = ''Mumbai'', country = ''India'', lat = 19.0760, lng = 72.8777\<rparr>,
      \<lparr>city = ''Delhi'', country = ''India'', lat = 28.7041, lng = 77.1025\<rparr>,
      \<lparr>city = ''Berlin'', country = ''Germany'', lat = 52.5200, lng = 13.4050\<rparr>]"

text \<open>\<^verbatim>\<open>searchLocations\<close>: the value its promise resolves to.\<close>

definition searchLocations :: "string \<Rightarrow> location list" where
  "searchLocations query =
     (if query = [] then []
      else filter
        (\<lambda>location.
           String_includes (toLowerCase (city location)) (toLowerCase query) \<or>
           String_includes (toLowerCase (country location)) (toLowerCase query))
        mockData)"

text \<open>The component state of \<^verbatim>\<open>LocationStep\<close>.\<close>

record location_state =
  searchQuery :: string
  searchResults :: "location list"
  searching :: bool

text \<open>
  \<^verbatim>\<open>handleLocationSelect\<close>: four calls of the parent's \<^verbatim>\<open>updateFormData\<close>, all made by the
  handler of one render (\<open>c\<close> is the parent's state in that render), then the two setters of
  the step's own state.
\<close>

definition handleLocationSelect ::
    "location \<Rightarrow> form_state \<times> location_state \<Rightarrow> form_state \<times> location_state" where
  "handleLocationSelect location = (\<lambda>(c, v).
     (let s1 = handleUpdateFormData c ''birthCity'' (Str (city location)) c;
          s2 = handleUpdateFormData c ''birthCountry'' (Str (country location)) s1;
          s3 = handleUpdateFormData c ''latitude'' (Num (lat location)) s2;
          s4 = handleUpdateFormData c ''longitude'' (Num (lng location)) s3
      in (s4, v\<lparr>searchQuery := city location @ '', '' @ country location,
                searchResults := []\<rparr>)))"

text \<open>
  The callback the effect hands to \<^verbatim>\<open>setTimeout\<close>, closed over the query \<open>q\<close> of its render.
  It returns the state after its three setters and the query it has called
  \<^verbatim>\<open>searchLocations\<close> with, if it has.
\<close>

definition delaySearch_callback ::
    "string \<Rightarrow> location_state \<Rightarrow> location_state \<times> string option" where
  "delaySearch_callback q v =
     (if length q > 2
      then (v\<lparr>searching := False, searchResults := searchLocations q\<rparr>, Some q)
      else (v\<lparr>searchResults := []\<rparr>, None))"

text \<open>
  The page while the location step is mounted. The browser's part is a clock in
  milliseconds and the table of pending timers; \<open>cleanup\<close> is the timer the effect's cleanup
  function will clear. \<open>changedAt\<close> records when \<open>searchQuery\<close> last changed; no handler reads it.
\<close>

record timer =
  due :: nat
  captured :: string

record page =
  form :: form_state
  view :: location_state
  clock :: nat
  timers :: "nat \<rightharpoonup> timer"
  nextId :: nat
  cleanup :: "nat option"
  changedAt :: nat

text \<open>
  The effect with dependency \<^verbatim>\<open>[searchQuery]\<close>: the cleanup of the previous run
  (\<^verbatim>\<open>clearTimeout\<close>), then \<^verbatim>\<open>setTimeout(callback, 500)\<close>.
\<close>

definition clearTimeout :: "nat option \<Rightarrow> (nat \<rightharpoonup> timer) \<Rightarrow> (nat \<rightharpoonup> timer)" where
  "clearTimeout h ts = (case h of None \<Rightarrow> ts | Some i \<Rightarrow> ts(i := None))"

definition run_effect :: "page \<Rightarrow> page" where
  "run_effect p =
     p\<lparr>timers := (clearTimeout (cleanup p) (timers p))
          (nextId p \<mapsto> \<lparr>due = clock p + 500, captured = searchQuery (view p)\<rparr>),
       cleanup := Some (nextId p),
       nextId := nextId p + 1,
       changedAt := clock p\<rparr>"

definition mount :: "form_state \<Rightarrow> page" where
  "mount s =
     run_effect
       \<lparr>form = s, view = \<lparr>searchQuery = [], searchResults = [], searching = False\<rparr>,
        clock = 0, timers = Map.empty, nextId = 0, cleanup = None, changedAt = 0\<rparr>"

text \<open>
  What can happen to the mounted step: typing into the search box, clicking a result, time
  passing, and a timer of the table firing (never before it is due). A render re-runs the
  effect only when \<open>searchQuery\<close> has changed. A step returns the query of the lookup it
  made, if any.
\<close>

datatype page_event =
    TypeQuery string
  | SelectLocation location
  | Elapse nat
  | Fire nat

definition rerender :: "string \<Rightarrow> page \<Rightarrow> page" where
  "rerender old p = (if searchQuery (view p) = old then p else run_effect p)"

fun page_step :: "page_event \<Rightarrow> page \<Rightarrow> page \<times> string option" where
  "page_step (TypeQuery q) p =
     (rerender (searchQuery (view p)) (p\<lparr>view := (view p)\<lparr>searchQuery := q\<rparr>\<rparr>), None)"
| "page_step (SelectLocation l) p =
     (let (s, v) = handleLocationSelect l (form p, view p)
      in (rerender (searchQuery (view p)) (p\<lparr>form := s, view := v\<rparr>), None))"
| "page_step (Elapse d) p = (p\<lparr>clock := clock p + d\<rparr>, None)"
| "page_step (Fire i) p =
     (case timers p i of
        None \<Rightarrow> (p, None)
      | Some t \<Rightarrow>
          if due t \<le> clock p then
            (let (v, looked) = delaySearch_callback (captured t) (view p)
             in (p\<lparr>view := v, timers := (timers p)(i := None)\<rparr>, looked))
          else (p, None))"

text \<open>A run of events from a page: the page reached.\<close>

fun page_run :: "page_event list \<Rightarrow> page \<Rightarrow> page" where
  "page_run [] p = p"
| "page_run (e # es) p = page_run es (fst (page_step e p))"

text \<open>
  The buttons and inputs of the form as events. A handler that throws has set nothing.
\<close>

datatype form_event = Next | Back | Reset | SaveProgress | Update string jsval

fun dispatch :: "((string \<rightharpoonup> jsval) \<Rightarrow> string) \<Rightarrow> form_event \<Rightarrow> form_state \<Rightarrow>
    form_state \<times> effect list" where
  "dispatch js Next s = (case handleNext s of Inl e \<Rightarrow> (s, []) | Inr r \<Rightarrow> r)"
| "dispatch js Back s = (handlePrevious s, [])"
| "dispatch js Reset s = handleReset s"
| "dispatch js SaveProgress s = handleSaveProgress js s"
| "dispatch js (Update field v) s = (updateFormData field v s, [])"

fun form_run :: "((string \<rightharpoonup> jsval) \<Rightarrow> string) \<Rightarrow> form_event list \<Rightarrow> form_state \<Rightarrow>
    form_state" where
  "form_run js [] s = s"
| "form_run js (e # es) s = form_run js es (fst (dispatch js e s))"



text \<open>
  The interface \<^verbatim>\<open>FormData\<close>, and the calls of \<^verbatim>\<open>updateFormData\<close> the three step components
  make: strings from the inputs, a date or \<^verbatim>\<open>undefined\<close> from the calendar, numbers from a
  selected location.
\<close>

fun is_string :: "jsval \<Rightarrow> bool" where
  "is_string (Str s) = True"
| "is_string v = False"

fun is_date_or_undefined :: "jsval \<Rightarrow> bool" where
  "is_date_or_undefined (DateObj t) = True"
| "is_date_or_undefined Undefined = True"
| "is_date_or_undefined v = False"

fun is_number_or_null :: "jsval \<Rightarrow> bool" where
  "is_number_or_null (Num x) = True"
| "is_number_or_null Null = True"
| "is_number_or_null v = False"

definition FormData_typed :: "(string \<rightharpoonup> jsval) \<Rightarrow> bool" where
  "FormData_typed fd \<longleftrightarrow>
     is_string (get_prop fd ''name'') \<and> is_string (get_prop fd ''email'') \<and>
     is_date_or_undefined (get_prop fd ''birthDate'') \<and>
     is_string (get_prop fd ''birthTime'') \<and>
     is_string (get_prop fd ''birthCity'') \<and> is_string (get_prop fd ''birthCountry'') \<and>
     is_number_or_null (get_prop fd ''latitude'') \<and>
     is_number_or_null (get_prop fd ''longitude'')"

section \<open>The results\<close>

text \<open>
  \<^verbatim>\<open>ResultsPage\<close>: the callback of its two-second timer. \<^verbatim>\<open>JSON.parse\<close> is the runtime's and a
  parameter; of its result only the property \<^verbatim>\<open>name\<close> is read, so a parsed value is \<^verbatim>\<open>null\<close>,
  an object with its own properties, or something else (a primitive or an array, where
  \<^verbatim>\<open>name\<close> reads as \<^verbatim>\<open>undefined\<close>).
\<close>

datatype parsed = ParsedNull | ParsedObject "string \<rightharpoonup> jsval" | ParsedOther

record results_state =
  isLoading :: bool
  userName :: jsval

definition ResultsPage_initial :: results_state where
  "ResultsPage_initial = \<lparr>isLoading = True, userName = Str []\<rparr>"

definition ResultsPage_timer ::
    "(string \<Rightarrow> js_error + parsed) \<Rightarrow> (string \<rightharpoonup> string) \<Rightarrow> results_state \<Rightarrow>
     results_state \<times> js_error option" where
  "ResultsPage_timer JSON_parse localStorage st =
     (let st1 = st\<lparr>isLoading := False\<rparr> in
      case localStorage ''kundaliFormData'' of
        None \<Rightarrow> (st1\<lparr>userName := Str ''User''\<rparr>, None)
      | Some item \<Rightarrow>
          if item = [] then (st1\<lparr>userName := Str ''User''\<rparr>, None)
          else
            (case JSON_parse item of
               Inl e \<Rightarrow> (st1, Some e)
             | Inr ParsedNull \<Rightarrow> (st1, Some TypeError)
             | Inr ParsedOther \<Rightarrow> (st1\<lparr>userName := Str ''User''\<rparr>, None)
             | Inr (ParsedObject parsedData) \<Rightarrow>
                 (st1\<lparr>userName :=
                    (if truthy (get_prop parsedData ''name'')
                     then get_prop parsedData ''name'' else Str ''User'')\<rparr>, None)))"


subsection \<open>Fixtures\<close>

record planet_row =
  planet :: string
  sign :: string
  degree :: string
  house :: nat
  retrograde :: bool

definition deg :: "string \<Rightarrow> string \<Rightarrow> string" where
  "deg d m = d @ [CHR 0xB0] @ '' '' @ m @ [CHR 0x27]"

text \<open>\<^verbatim>\<open>planetaryData\<close> of \<^verbatim>\<open>PlanetaryPositions.tsx\<close>; \<open>deg d m\<close> is the text d, degree sign, m, prime.\<close>

definition planetaryData :: "planet_row list" where
  "planetaryData =
     [\<lparr>planet = ''Sun'', sign = ''Taurus'', degree = deg ''15'' ''42'', house = 1, retrograde = False\<rparr>,
      \<lparr>planet = ''Moon'', sign = ''Pisces'', degree = deg ''28'' ''17'', house = 11, retrograde = False\<rparr>,
      \<lparr>planet = ''Mars'', sign = ''Capricorn'', degree = deg ''09'' ''03'', house = 9, retrograde = False\<rparr>,
      \<lparr>planet = ''Mercury'', sign = ''Taurus'', degree = deg ''20'' ''58'', house = 1, retrograde = False\<rparr>,
      \<lparr>planet = ''Jupiter'', sign = ''Scorpio'', degree = deg ''07'' ''16'', house = 7, retrograde = True\<rparr>,
      \<lparr>planet = ''Venus'', sign = ''Gemini'', degree = deg ''02'' ''34'', house = 2, retrograde = False\<rparr>,
      \<lparr>planet = ''Saturn'', sign = ''Capricorn'', degree = deg ''24'' ''51'', house = 9, retrograde = True\<rparr>,
      \<lparr>planet = ''Rahu'', sign = ''Cancer'', degree = deg ''06'' ''10'', house = 3, retrograde = True\<rparr>,
      \<lparr>planet = ''Ketu'', sign = ''Capricorn'', degree = deg ''06'' ''10'', house = 9, retrograde = True\<rparr>]"

text \<open>\<^verbatim>\<open>planets\<close>, \<^verbatim>\<open>houses\<close> and \<^verbatim>\<open>dashas\<close> of \<^verbatim>\<open>kundali-results.tsx\<close>.\<close>

definition planets :: "planet_row list" where
  "planets =
     [\<lparr>planet = ''Sun'', sign = ''Aries'', degree = deg ''15'' ''23'', house = 1, retrograde = False\<rparr>,
      \<lparr>planet = ''Moon'', sign = ''Taurus'', degree = deg ''8'' ''45'', house = 2, retrograde = False\<rparr>,
      \<lparr>planet = ''Mercury'', sign = ''Pisces'', degree = deg ''2'' ''18'', house = 12, retrograde = True\<rparr>,
      \<lparr>planet = ''Venus'', sign = ''Aquarius'', degree = deg ''25'' ''07'', house = 11, retrograde = False\<rparr>,
      \<lparr>planet = ''Mars'', sign = ''Capricorn'', degree = deg ''19'' ''34'', house = 10, retrograde = False\<rparr>,
      \<lparr>planet = ''Jupiter'', sign = ''Leo'', degree = deg ''11'' ''42'', house = 5, retrograde = False\<rparr>,
      \<lparr>planet = ''Saturn'', sign = ''Scorpio'', degree = deg ''28'' ''56'', house = 8, retrograde = True\<rparr>,
      \<lparr>planet = ''Rahu'', sign = ''Virgo'', degree = deg ''3'' ''12'', house = 6, retrograde = False\<rparr>,
      \<lparr>planet = ''Ketu'', sign = ''Pisces'', degree = deg ''3'' ''12'', house = 12, retrograde = False\<rparr>]"

record house_row =
  h_house :: nat
  h_sign :: string
  h_planets :: "string list"

definition houses :: "house_row list" where
  "houses =
     [\<lparr>h_house = 1, h_sign = ''Aries'', h_planets = [''Sun'']\<rparr>,
      \<lparr>h_house = 2, h_sign = ''Taurus'', h_planets = [''Moon'']\<rparr>,
      \<lparr>h_house = 3, h_sign = ''Gemini'', h_planets = []\<rparr>,
      \<lparr>h_house = 4, h_sign = ''Cancer'', h_planets = []\<rparr>,
      \<lparr>h_house = 5, h_sign = ''Leo'', h_planets = [''Jupiter'']\<rparr>,
      \<lparr>h_house = 6, h_sign = ''Virgo'', h_planets = [''Rahu'']\<rparr>,
      \<lparr>h_house = 7, h_sign = ''Libra'', h_planets = []\<rparr>,
      \<lparr>h_house = 8, h_sign = ''Scorpio'', h_planets = [''Saturn'']\<rparr>,
      \<lparr>h_house = 9, h_sign = ''Sagittarius'', h_planets = []\<rparr>,
      \<lparr>h_house = 10, h_sign = ''Capricorn'', h_planets = [''Mars'']\<rparr>,
      \<lparr>h_house = 11, h_sign = ''Aquarius'', h_planets = [''Venus'']\<rparr>,
      \<lparr>h_house = 12, h_sign = ''Pisces'', h_planets = [''Mercury'', ''Ketu'']\<rparr>]"

record dasha_row =
  period :: string
  startDate :: string
  endDate :: string
  description :: string

definition dashas :: "dasha_row list" where
  "dashas =
     [\<lparr>period = ''Ketu Mahadasha'', startDate = ''Jan 2020'', endDate = ''Jan 2027'',
       description = ''A period of spiritual growth and introspection. There may be sudden changes and detachments from material desires. Good for meditation and inner work.''\<rparr>,
      \<lparr>period = ''Venus Mahadasha'', startDate = ''Jan 2027'', endDate = ''Jan 2047'',
       description = ''A period focused on relationships, creativity, and comforts. Favorable for marriage, arts, and financial growth if Venus is well-placed in the chart.''\<rparr>,
      \<lparr>period = ''Sun Mahadasha'', startDate = ''Jan 2047'', endDate = ''Jan 2053'',
       description = ''A period highlighting leadership, authority, and self-identity. May bring recognition, career advancement, and improved relationship with father figures.''\<rparr>]"

text \<open>\<^verbatim>\<open>houseData\<close> of \<^verbatim>\<open>HouseInterpretations\<close> and \<^verbatim>\<open>dashaData\<close> of \<^verbatim>\<open>DashaPredictions\<close>.\<close>

record house_data =
  hd_house :: nat
  hd_title :: string
  hd_sign :: string
  hd_lord :: string
  hd_planets :: "string list"
  hd_interpretation :: string
  hd_lifeAreas :: string

definition houseData :: "house_data list" where
  "houseData =
     [\<lparr>hd_house = 1, hd_title = ''First House (Ascendant/Lagna)'', hd_sign = ''Taurus'', hd_lord = ''Venus'',
       hd_planets = [''Sun'', ''Mercury''],
       hd_interpretation = ''With Taurus rising, you present yourself as practical, reliable, and grounded. You likely have a strong physical presence and appreciate beauty and comfort. Venus as your chart ruler gives you a natural charm and diplomatic nature. The presence of Sun and Mercury in this house enhances your self-expression and communication abilities, making you articulate in expressing your identity.'',
       hd_lifeAreas = ''Self-image, physical appearance, personal approach to life, first impressions you make on others''\<rparr>,
      \<lparr>hd_house = 2, hd_title = ''Second House'', hd_sign = ''Gemini'', hd_lord = ''Mercury'',
       hd_planets = [''Venus''],
       hd_interpretation = ''Your second house in Gemini suggests versatility in how you build resources and manage finances. You may have multiple streams of income or frequently change how you make money. With Venus placed here, you likely find financial security through creative pursuits, social connections, or aesthetic fields. You enjoy spending on beautiful things and experiences that stimulate your mind.'',
       hd_lifeAreas = ''Material resources, earned income, possessions, values, speech, self-worth''\<rparr>,
      \<lparr>hd_house = 3, hd_title = ''Third House'', hd_sign = ''Cancer'', hd_lord = ''Moon'',
       hd_planets = [''Rahu''],
       hd_interpretation = ''With Cancer in your third house, your communication style is likely empathetic and nurturing. You connect emotionally with siblings and neighbors. The presence of Rahu here intensifies your curiosity and desire for knowledge, perhaps pushing you toward unconventional learning or communication methods. You may be drawn to writing or speaking about emotional or family-related topics.'',
       hd_lifeAreas = ''Communication, siblings, neighbors, short trips, early education, courage''\<rparr>]"

record subperiod =
  sp_title :: string
  sp_period :: string
  sp_prediction :: string

record dasha_data =
  dd_planet :: string
  dd_period :: string
  dd_prediction :: string
  dd_subperiods :: "subperiod list"

definition dashaData :: "dasha_data list" where
  "dashaData =
     [\<lparr>dd_planet = ''Venus'', dd_period = ''Apr 2022 - Apr 2042'',
       dd_prediction = ''The Venus Mahadasha is a generally favorable period focusing on relationships, creativity, comfort, and sensual pleasures. During these 20 years, you'll likely experience growth in artistic endeavors, relationships, and financial stability. Venus's energy brings harmony and balance, but watch for overindulgence or excessive attachment to material comforts.'',
       dd_subperiods =
         [\<lparr>sp_title = ''Venus-Venus'', sp_period = ''Apr 2022 - Oct 2025'',
           sp_prediction = ''A time of heightened creativity, relationship harmony, and possible financial growth. Artistic pursuits flourish, and you may find yourself particularly attuned to beauty and aesthetics.''\<rparr>,
          \<lparr>sp_title = ''Venus-Sun'', sp_period = ''Oct 2025 - Oct 2026'',
           sp_prediction = ''Your creative abilities gain recognition and visibility. Leadership opportunities within artistic or relationship-oriented contexts may emerge. A good period for self-expression through Venusian channels.''\<rparr>,
          \<lparr>sp_title = ''Venus-Moon'', sp_period = ''Oct 2026 - Jun 2028'',
           sp_prediction = ''Emotional fulfillment through relationships and artistic expression. Your intuition regarding beauty and harmony is heightened. A favorable time for domestic happiness and emotional security.''\<rparr>]\<rparr>,
      \<lparr>dd_planet = ''Sun'', dd_period = ''Apr 2042 - Apr 2048'',
       dd_prediction = ''The Sun Mahadasha brings focus to your core identity, vitality, and self-expression. This 6-year period highlights leadership abilities and may bring recognition or advancement in career. It's a time to shine in areas related to your authentic self, though ego-related challenges may need balancing.'',
       dd_subperiods =
         [\<lparr>sp_title = ''Sun-Sun'', sp_period = ''Apr 2042 - Aug 2042'',
           sp_prediction = ''A brief but powerful period of self-realization and vitality. Your essential nature becomes more apparent, and you may feel a strong drive to express your authentic self.''\<rparr>,
          \<lparr>sp_title = ''Sun-Moon'', sp_period = ''Aug 2042 - Feb 2043'',
           sp_prediction = ''Balance between self-expression and emotional needs. Your leadership may take on a more nurturing quality, and you might find yourself in positions where you care for others while still maintaining your authority.''\<rparr>,
          \<lparr>sp_title = ''Sun-Mars'', sp_period = ''Feb 2043 - Jun 2043'',
           sp_prediction = ''Energy and drive combine with leadership abilities. A dynamic period for initiating projects and asserting your will. Watch for potential conflicts due to heightened assertiveness.''\<rparr>]\<rparr>]"

subsection \<open>The components that render them\<close>

text \<open>
  A rendering keeps what the JSX puts into the page and drops the markup: the cells of a
  table row in order, the children given to an element as the values they are, a tab as its
  value and its content, a text of the SVG as its position and its characters. Of the cards
  of fixed prose the headings (and the items of a list) are kept. A card shows skeletons
  while \<open>isLoading\<close> holds.
\<close>

fun join :: "string \<Rightarrow> string list \<Rightarrow> string" where
  "join sep [] = []"
| "join sep [x] = x"
| "join sep (x # y # ys) = x @ sep @ join sep (y # ys)"

datatype 'a card = Skeleton | Content 'a

definition card :: "bool \<Rightarrow> 'a \<Rightarrow> 'a card" where
  "card loading body = (if loading then Skeleton else Content body)"

text \<open>\<^verbatim>\<open>BirthChart\<close>: the texts of the SVG and the pairs of the information card, all literals.\<close>

record birth_chart_view =
  svg_texts :: "(nat \<times> nat \<times> string) list card"
  chart_information :: "(string \<times> string) list card"

definition BirthChart :: "bool \<Rightarrow> birth_chart_view" where
  "BirthChart loading =
     \<lparr>svg_texts = card loading
        [(110, 110, ''1''), (290, 110, ''2''), (290, 290, ''3''), (110, 290, ''4''),
         (60, 140, ''12''), (260, 140, ''11''), (260, 260, ''10''), (60, 260, ''9''),
         (140, 60, ''5''), (340, 60, ''6''), (340, 340, ''7''), (140, 340, ''8''),
         (200, 200, ''Rasi Chart''),
         (105, 90, ''Su''), (305, 120, ''Mo''), (270, 280, ''Ma''), (90, 270, ''Me''),
         (50, 150, ''Ju''), (250, 130, ''Ve''), (250, 240, ''Sa''), (70, 250, ''Ra''),
         (160, 70, ''Ke'')],
      chart_information = card loading
        [(''Ascendant (Lagna)'', ''Taurus''), (''Moon Sign (Rashi)'', ''Pisces''),
         (''Nakshatra (Lunar Mansion)'', ''Revati''), (''Ayanamsa Used'', ''Lahiri'')]\<rparr>"

text \<open>\<^verbatim>\<open>PlanetaryPositions\<close>: one row per entry of \<^verbatim>\<open>planetaryData\<close>, and two cards of prose.\<close>

record planetary_view =
  positions :: "(string \<times> string \<times> string \<times> nat \<times> string) list card"
  influences :: "string list card"
  aspects :: "string list card"

definition PlanetaryPositions :: "bool \<Rightarrow> planetary_view" where
  "PlanetaryPositions loading =
     \<lparr>positions = card loading
        (map (\<lambda>p. (planet p, sign p, degree p, house p,
                    if retrograde p then ''Retrograde'' else ''Direct'')) planetaryData),
      influences = card loading
        [''Saturn in 9th House'', ''Moon in Pisces'', ''Jupiter Retrograde''],
      aspects = card loading
        [''Sun conjunct Mercury'', ''Mars square Jupiter'', ''Ketu conjunct Saturn'']\<rparr>"

text \<open>
  \<^verbatim>\<open>HouseInterpretations\<close>: twelve triggers, a tab for each entry of \<^verbatim>\<open>houseData\<close>, and a
  placeholder tab for each house number from 1 to 12 that no entry has.
\<close>

record house_tab =
  ht_value :: string
  ht_title :: string
  ht_sign_lord :: string
  ht_planets :: "string option"
  ht_lifeAreas :: string
  ht_interpretation :: string

record house_tabs =
  house_triggers :: "(string \<times> string) list"
  house_contents :: "house_tab list"
  house_placeholders :: "(string \<times> string) list"

record houses_view =
  interpretations :: "house_tabs card"
  strengths :: "string list card"
  growth :: "string list card"

definition HouseInterpretations :: "bool \<Rightarrow> houses_view" where
  "HouseInterpretations loading =
     \<lparr>interpretations = card loading
        \<lparr>house_triggers =
           map (\<lambda>i. (''house'' @ nat_digits (i + 1), ''House '' @ nat_digits (i + 1))) [0..<12],
         house_contents =
           map (\<lambda>h. \<lparr>ht_value = ''house'' @ nat_digits (hd_house h),
                      ht_title = hd_title h,
                      ht_sign_lord = ''Sign: '' @ hd_sign h @ '' | Lord: '' @ hd_lord h,
                      ht_planets = (if length (hd_planets h) > 0
                                    then Some (join '', '' (hd_planets h)) else None),
                      ht_lifeAreas = hd_lifeAreas h,
                      ht_interpretation = hd_interpretation h\<rparr>) houseData,
         house_placeholders =
           map (\<lambda>houseNum. (''house'' @ nat_digits houseNum,
                  ''Detailed interpretation for House '' @ nat_digits houseNum @
                  '' would appear here in the complete implementation.''))
               (filter (\<lambda>num. \<not> list_ex (\<lambda>h. hd_house h = num) houseData)
                  (map (\<lambda>i. i + 1) [0..<12]))\<rparr>,
      strengths = card loading [''Strong 1st House'', ''Venus in 2nd House''],
      growth = card loading [''Rahu in 3rd House'', ''Empty 7th House'']\<rparr>"

text \<open>
  \<^verbatim>\<open>DashaPredictions\<close>: a trigger and a tab for each entry of \<^verbatim>\<open>dashaData\<close>, the tab with its
  sub-periods, and two cards of prose with a heading and a list each.
\<close>

record dasha_tab =
  dt_value :: string
  dt_heading :: string
  dt_prediction :: string
  dt_subperiods :: "(string \<times> string) list"

record dasha_tabs =
  dasha_triggers :: "(string \<times> string) list"
  dasha_contents :: "dasha_tab list"

record dashas_view =
  predictions :: "dasha_tabs card"
  current_influences :: "(string \<times> string list) card"
  upcoming_transitions :: "(string \<times> string list) card"

definition DashaPredictions :: "bool \<Rightarrow> dashas_view" where
  "DashaPredictions loading =
     \<lparr>predictions = card loading
        \<lparr>dasha_triggers =
           map (\<lambda>d. (toLowerCase (dd_planet d), dd_planet d @ '' Dasha'')) dashaData,
         dasha_contents =
           map (\<lambda>d. \<lparr>dt_value = toLowerCase (dd_planet d),
                      dt_heading = dd_planet d @ '' Mahadasha ('' @ dd_period d @ '')'',
                      dt_prediction = dd_prediction d,
                      dt_subperiods =
                        map (\<lambda>s. (sp_title s @ '' ('' @ sp_period s @ '')'', sp_prediction s))
                          (dd_subperiods d)\<rparr>) dashaData\<rparr>,
      current_influences = card loading
        (''Venus-Venus (Apr 2022 - Oct 2025)'',
         [''Developing artistic talents and creative pursuits'',
          ''Building harmonious relationships and partnerships'',
          ''Enhancing your surroundings and creating beauty'',
          ''Finding pleasure and joy in sensory experiences'']),
      upcoming_transitions = card loading
        (''Venus-Sun (Oct 2025 - Oct 2026)'',
         [''Increased visibility and recognition for creative work'',
          ''Greater focus on self-expression within relationships'',
          ''Potential leadership roles in artistic or social contexts'',
          ''Finding balance between ego and harmony''])\<rparr>"

text \<open>
  \<^verbatim>\<open>ResultsPage\<close> renders the heading from \<open>userName\<close> and hands each of its four tabs
  \<open>isLoading\<close> and nothing else.
\<close>

record results_view =
  heading :: "jsval card"
  birthchart_tab :: birth_chart_view
  planets_tab :: planetary_view
  houses_tab :: houses_view
  dashas_tab :: dashas_view

definition ResultsPage :: "results_state \<Rightarrow> results_view" where
  "ResultsPage st =
     \<lparr>heading = (if isLoading st then Skeleton else Content (userName st)),
      birthchart_tab = BirthChart (isLoading st),
      planets_tab = PlanetaryPositions (isLoading st),
      houses_tab = HouseInterpretations (isLoading st),
      dashas_tab = DashaPredictions (isLoading st)\<rparr>"

text \<open>The page once the callback of its timer has run: the state it leaves, rendered.\<close>

definition ResultsPage_loaded ::
    "(string \<Rightarrow> js_error + parsed) \<Rightarrow> (string \<rightharpoonup> string) \<Rightarrow> results_state \<Rightarrow> results_view" where
  "ResultsPage_loaded JSON_parse localStorage st =
     ResultsPage (fst (ResultsPage_timer JSON_parse localStorage st))"

text \<open>
  \<^verbatim>\<open>KundaliResults\<close>. Its \<^verbatim>\<open>formData\<close> prop (\<open>props\<close>) is the state of \<^verbatim>\<open>KundaliForm\<close>. The date is shown
  through \<^verbatim>\<open>toLocaleDateString\<close>, the runtime's and a parameter; calling it on a truthy value
  that is no \<^verbatim>\<open>Date\<close> throws. The chart card is the right operand of \<^verbatim>\<open>formData.showChart &&\<close>:
  seven cells of house data around the name.
\<close>

record chart_card =
  cells :: "string list"
  centre :: jsval

record kundali_view =
  birthDate_text :: jsval
  birthTime_text :: jsval
  birthPlace_text :: jsval
  summary :: "string list"
  chart :: "jsval + chart_card"
  planets_table :: "(string \<times> string \<times> nat \<times> string \<times> string) list"
  houses_table :: "(nat \<times> string \<times> string) list"
  dasha_items :: "(string \<times> string \<times> string) list"

definition or_default :: "jsval \<Rightarrow> string \<Rightarrow> jsval" where
  "or_default v d = (if truthy v then v else Str d)"

text \<open>The JSX, given the text of the birth date.\<close>

definition KundaliResults_jsx :: "(string \<rightharpoonup> jsval) \<Rightarrow> jsval \<Rightarrow> kundali_view" where
  "KundaliResults_jsx props date_text =
     \<lparr>birthDate_text = date_text,
      birthTime_text = or_default (get_prop props ''time'') ''Not specified'',
      birthPlace_text = or_default (get_prop props ''place'') ''Not specified'',
      summary =
        [planet (planets ! 0), sign (planets ! 0), nat_digits (house (planets ! 0)),
         planet (planets ! 1), sign (planets ! 1), nat_digits (house (planets ! 1)),
         h_sign (houses ! 0)],
      chart =
        (if truthy (get_prop props ''showChart'')
         then Inr \<lparr>cells = map (\<lambda>i. join '', '' (h_planets (houses ! i)))
                             [0, 1, 11, 2, 10, 9, 3],
                   centre = get_prop props ''name''\<rparr>
         else Inl (get_prop props ''showChart'')),
      planets_table =
        map (\<lambda>p. (planet p, sign p, house p, degree p,
                   if retrograde p then ''Retrograde'' else ''Direct'')) planets,
      houses_table =
        map (\<lambda>h. (h_house h, h_sign h,
                   if length (h_planets h) \<noteq> 0 then join '', '' (h_planets h) else ''-''))
            houses,
      dasha_items =
        map (\<lambda>d. (period d, startDate d @ '' - '' @ endDate d, description d)) dashas\<rparr>"

definition KundaliResults ::
    "(int \<Rightarrow> string) \<Rightarrow> (string \<rightharpoonup> jsval) \<Rightarrow> js_error + kundali_view" where
  "KundaliResults toLocaleDateString props =
     (case get_prop props ''date'' of
        DateObj t \<Rightarrow> Inr (KundaliResults_jsx props (Str (toLocaleDateString t)))
      | v \<Rightarrow> if truthy v then Inl TypeError
             else Inr (KundaliResults_jsx props (Str ''Not specified'')))"

section \<open>Notions of the specification\<close>

subsection \<open>What a regular expression denotes\<close>

text \<open>
  The words of each item, and the concatenations of one word per item. A \<open>solid\<close> word is a
  run of characters with no white space, as \<^verbatim>\<open>\S+\<close> wants it.
\<close>

fun lang_item :: "rx_item \<Rightarrow> string set" where
  "lang_item (Single k) = {[c] | c. class_matches k c}"
| "lang_item (Plus k) = {w. w \<noteq> [] \<and> (\<forall>c \<in> set w. class_matches k c)}"

fun lang :: "regex \<Rightarrow> string set" where
  "lang [] = {[]}"
| "lang (i # r) = {u @ v | u v. u \<in> lang_item i \<and> v \<in> lang r}"

definition solid :: "string \<Rightarrow> bool" where
  "solid w \<longleftrightarrow> w \<noteq> [] \<and> (\<forall>c \<in> set w. \<not> isWhiteSpace c)"

subsection \<open>The transition guard\<close>

text \<open>
  Every required field of the current step passes its presence check (a string that is not
  empty or white space only; a date and a time that are there) and, for the email address,
  its format check.
\<close>

definition present :: "jsval \<Rightarrow> bool" where
  "present v = (case v of Str s \<Rightarrow> \<not> list_all isWhiteSpace s | _ \<Rightarrow> False)"

definition email_format_ok :: "jsval \<Rightarrow> bool" where
  "email_format_ok v = (case v of Str e \<Rightarrow> RegExp_test email_regex e | _ \<Rightarrow> False)"

definition required_fields_pass :: "form_state \<Rightarrow> bool" where
  "required_fields_pass s =
     (let fd = formData s in
      if currentStep s = 0 then
        present (get_prop fd ''name'') \<and> present (get_prop fd ''email'') \<and>
        email_format_ok (get_prop fd ''email'')
      else if currentStep s = 1 then
        truthy (get_prop fd ''birthDate'') \<and> truthy (get_prop fd ''birthTime'')
      else if currentStep s = 2 then
        present (get_prop fd ''birthCity'') \<and> present (get_prop fd ''birthCountry'')
      else True)"

subsection \<open>Containing a query case-insensitively\<close>

text \<open>
  Some run of the string has the query's length and agrees with the query letter by letter,
  up to case.
\<close>

definition same_letter :: "char \<Rightarrow> char \<Rightarrow> bool" where
  "same_letter a b \<longleftrightarrow> toLowerCase_char a = toLowerCase_char b"

definition contains_ignoring_case :: "string \<Rightarrow> string \<Rightarrow> bool" where
  "contains_ignoring_case s q \<longleftrightarrow>
     (\<exists>pre mid post. s = pre @ mid @ post \<and> list_all2 same_letter mid q)"

section \<open>Invariants\<close>

text \<open>The step index names one of the steps; no message of the error map is empty.\<close>

definition step_in_range :: "form_state \<Rightarrow> bool" where
  "step_in_range s \<longleftrightarrow> 0 \<le> currentStep s \<and> currentStep s \<le> int (length steps) - 1"

definition messages_nonempty :: "(string \<rightharpoonup> string) \<Rightarrow> bool" where
  "messages_nonempty errs \<longleftrightarrow> [] \<notin> ran errs"

text \<open>
  An update as the step components make them: a value of the type the interface declares
  for the field.
\<close>

definition typed_update :: "string \<Rightarrow> jsval \<Rightarrow> bool" where
  "typed_update field v =
     (if field \<in> {''name'', ''email'', ''birthTime'', ''birthCity'', ''birthCountry''}
        then is_string v
      else if field = ''birthDate'' then is_date_or_undefined v
      else if field \<in> {''latitude'', ''longitude''} then is_number_or_null v
      else True)"

fun typed_event :: "form_event \<Rightarrow> bool" where
  "typed_event (Update field v) = typed_update field v"
| "typed_event e = True"

text \<open>
  The mounted location step: a pending timer is the one the effect's cleanup will clear, it
  carries the query of the current render and is due 500 milliseconds after that query was
  set.
\<close>

definition only_cleanup_pending :: "page \<Rightarrow> bool" where
  "only_cleanup_pending p \<longleftrightarrow> (\<forall>i. timers p i \<noteq> None \<longrightarrow> cleanup p = Some i)"

definition page_inv :: "page \<Rightarrow> bool" where
  "page_inv p \<longleftrightarrow>
     only_cleanup_pending p \<and>
     (\<forall>i t. timers p i = Some t \<longrightarrow>
        captured t = searchQuery (view p) \<and> due t = changedAt p + 500)"

section \<open>Examples\<close>

text \<open>
  A state on the last step with city and country filled in, and one with name and email.
\<close>

definition delhi_state :: form_state where
  "delhi_state = \<lparr>currentStep = 2,
     formData = initialFormData(''birthCity'' \<mapsto> Str ''Delhi'', ''birthCountry'' \<mapsto> Str ''India''),
     errors = Map.empty\<rparr>"


text \<open>
  Typing \<^verbatim>\<open>mu\<close>, then \<^verbatim>\<open>mum\<close> 300 milliseconds later, then waiting 500 milliseconds.
\<close>

definition typing_page :: page where
  "typing_page =
     page_run [TypeQuery ''mu'', Elapse 300, TypeQuery ''mum'', Elapse 500] (mount initial_state)"

text \<open>Props for \<^verbatim>\<open>KundaliResults\<close>: a name, a date, the chart switched on.\<close>

definition sample_props :: "string \<rightharpoonup> jsval" where
  "sample_props = [''name'' \<mapsto> Str ''Asha'', ''date'' \<mapsto> DateObj 0, ''showChart'' \<mapsto> Bool True]"

text \<open>Other props for \<^verbatim>\<open>KundaliResults\<close>: another name, no date, the chart switched on.\<close>

definition ravi_props :: "string \<rightharpoonup> jsval" where
  "ravi_props = [''name'' \<mapsto> Str ''Ravi'', ''showChart'' \<mapsto> Bool True]"


definition sample_parse :: "string \<Rightarrow> js_error + parsed" where
  "sample_parse t =
     (case t of
        [] \<Rightarrow> Inl SyntaxError
      | c # n \<Rightarrow> if c = CHR ''{'' then Inr (ParsedObject [''name'' \<mapsto> Str n])
                 else Inl SyntaxError)"


section \<open>Strings and regular expressions\<close>

lemma all_dropWhile_iff: "(\<forall>x \<in> set (dropWhile P xs). P x) \<longleftrightarrow> (\<forall>x \<in> set xs. P x)"
proof
  assume a: "\<forall>x \<in> set (dropWhile P xs). P x"
  have "dropWhile P xs = []"
  proof (rule ccontr)
    assume n: "dropWhile P xs \<noteq> []"
    then have "\<not> P (hd (dropWhile P xs))" by (rule hd_dropWhile)
    moreover have "hd (dropWhile P xs) \<in> set (dropWhile P xs)" using n by simp
    ultimately show False using a by blast
  qed
  then show "\<forall>x \<in> set xs. P x" by simp
next
  assume "\<forall>x \<in> set xs. P x"
  then show "\<forall>x \<in> set (dropWhile P xs). P x" by (meson set_dropWhileD)
qed

lemma trim_empty_iff: "trim s = [] \<longleftrightarrow> list_all isWhiteSpace s"
  by (simp add: trim_def all_dropWhile_iff list_all_iff)

text \<open>The matcher is right: \<open>RegExp_test r s\<close> holds when a word of \<open>r\<close> occurs in \<open>s\<close>.\<close>

lemma match_item_iff: "x \<in> set (match_item i s) \<longleftrightarrow> (\<exists>w \<in> lang_item i. s = w @ x)"
proof (induction i s rule: match_item.induct)
  case (1 k) then show ?case by simp
next
  case (2 k c cs) then show ?case by auto
next
  case (3 k) then show ?case by simp
next
  case (4 k c cs)
  show ?case
  proof (cases "class_matches k c")
    case False
    then show ?thesis by (auto simp: Cons_eq_append_conv)
  next
    case True
    have "(\<exists>w\<in>lang_item (Plus k). c # cs = w @ x) \<longleftrightarrow> (cs = x \<or> (\<exists>w\<in>lang_item (Plus k). cs = w @ x))"
    proof
      assume "\<exists>w\<in>lang_item (Plus k). c # cs = w @ x"
      then obtain w where w: "w \<noteq> []" "\<forall>c \<in> set w. class_matches k c" "c # cs = w @ x" by auto
      then obtain w' where w': "w = c # w'" "cs = w' @ x" by (cases w) auto
      show "cs = x \<or> (\<exists>w\<in>lang_item (Plus k). cs = w @ x)"
      proof (cases "w' = []")
        case True then show ?thesis using w' by simp
      next
        case False then show ?thesis using w w' by auto
      qed
    next
      assume "cs = x \<or> (\<exists>w\<in>lang_item (Plus k). cs = w @ x)"
      then show "\<exists>w\<in>lang_item (Plus k). c # cs = w @ x"
      proof
        assume "cs = x"
        then have "[c] \<in> lang_item (Plus k) \<and> c # cs = [c] @ x" using True by simp
        then show ?thesis by blast
      next
        assume "\<exists>w\<in>lang_item (Plus k). cs = w @ x"
        then obtain w where "w \<in> lang_item (Plus k)" "cs = w @ x" by blast
        then have "c # w \<in> lang_item (Plus k) \<and> c # cs = (c # w) @ x" using True by simp
        then show ?thesis by blast
      qed
    qed
    moreover have "x \<in> set (match_item (Plus k) (c # cs)) \<longleftrightarrow>
        (cs = x \<or> x \<in> set (match_item (Plus k) cs))"
      using True by auto
    moreover have "x \<in> set (match_item (Plus k) cs) \<longleftrightarrow> (\<exists>w\<in>lang_item (Plus k). cs = w @ x)"
      using 4 True by blast
    ultimately show ?thesis by blast
  qed
qed

lemma match_seq_iff: "x \<in> set (match_seq r s) \<longleftrightarrow> (\<exists>w \<in> lang r. s = w @ x)"
proof (induction r arbitrary: s)
  case Nil then show ?case by auto
next
  case (Cons i r)
  have "x \<in> set (match_seq (i # r) s) \<longleftrightarrow> (\<exists>y \<in> set (match_item i s). x \<in> set (match_seq r y))"
    by auto
  also have "\<dots> \<longleftrightarrow> (\<exists>u \<in> lang_item i. \<exists>v \<in> lang r. s = u @ v @ x)"
  proof
    assume "\<exists>y \<in> set (match_item i s). x \<in> set (match_seq r y)"
    then obtain y where y: "y \<in> set (match_item i s)" "x \<in> set (match_seq r y)" by blast
    from y(1) obtain u where u: "u \<in> lang_item i" "s = u @ y" unfolding match_item_iff by blast
    from y(2) obtain v where v: "v \<in> lang r" "y = v @ x" unfolding Cons.IH by blast
    from u v have "s = u @ v @ x" by simp
    with u(1) v(1) show "\<exists>u \<in> lang_item i. \<exists>v \<in> lang r. s = u @ v @ x" by blast
  next
    assume "\<exists>u \<in> lang_item i. \<exists>v \<in> lang r. s = u @ v @ x"
    then obtain u v where uv: "u \<in> lang_item i" "v \<in> lang r" "s = u @ v @ x" by blast
    then have "v @ x \<in> set (match_item i s)" unfolding match_item_iff by blast
    moreover have "x \<in> set (match_seq r (v @ x))" unfolding Cons.IH using uv(2) by blast
    ultimately show "\<exists>y \<in> set (match_item i s). x \<in> set (match_seq r y)" by blast
  qed
  also have "\<dots> \<longleftrightarrow> (\<exists>w \<in> lang (i # r). s = w @ x)"
  proof
    assume "\<exists>u \<in> lang_item i. \<exists>v \<in> lang r. s = u @ v @ x"
    then obtain u v where "u \<in> lang_item i" "v \<in> lang r" "s = (u @ v) @ x" by auto
    moreover from this have "u @ v \<in> lang (i # r)" by auto
    ultimately show "\<exists>w \<in> lang (i # r). s = w @ x" by blast
  next
    assume "\<exists>w \<in> lang (i # r). s = w @ x"
    then obtain w where "w \<in> lang (i # r)" "s = w @ x" by blast
    then obtain u v where "u \<in> lang_item i" "v \<in> lang r" "s = u @ v @ x" by auto
    then show "\<exists>u \<in> lang_item i. \<exists>v \<in> lang r. s = u @ v @ x" by blast
  qed
  finally show ?case .
qed

lemma match_here_iff: "match_here r s \<longleftrightarrow> (\<exists>w \<in> lang r. \<exists>x. s = w @ x)"
proof -
  have "match_here r s \<longleftrightarrow> (\<exists>x. x \<in> set (match_seq r s))"
    unfolding match_here_def by (cases "match_seq r s") auto
  then show ?thesis unfolding match_seq_iff by blast
qed

lemma RegExp_test_iff: "RegExp_test r s \<longleftrightarrow> (\<exists>p x. \<exists>w \<in> lang r. s = p @ w @ x)"
proof (induction s)
  case Nil
  show ?case unfolding RegExp_test.simps match_here_iff by auto
next
  case (Cons c cs)
  let ?H = "\<exists>w \<in> lang r. \<exists>x. c # cs = w @ x"
  let ?T = "\<exists>p x. \<exists>w \<in> lang r. cs = p @ w @ x"
  have "(\<exists>p x. \<exists>w \<in> lang r. c # cs = p @ w @ x) \<longleftrightarrow> ?H \<or> ?T"
  proof
    assume "\<exists>p x. \<exists>w \<in> lang r. c # cs = p @ w @ x"
    then obtain p x w where w: "w \<in> lang r" "c # cs = p @ w @ x" by blast
    show "?H \<or> ?T"
    proof (cases p)
      case Nil
      then have "c # cs = w @ x" using w by simp
      then show ?thesis using w(1) by blast
    next
      case (Cons a p')
      then have "cs = p' @ w @ x" using w by simp
      then show ?thesis using w(1) by blast
    qed
  next
    assume "?H \<or> ?T"
    then show "\<exists>p x. \<exists>w \<in> lang r. c # cs = p @ w @ x"
    proof
      assume ?H
      then obtain w x where "w \<in> lang r" "c # cs = [] @ w @ x" by auto
      then show ?thesis by blast
    next
      assume ?T
      then obtain p x w where "w \<in> lang r" "c # cs = (c # p) @ w @ x" by auto
      then show ?thesis by blast
    qed
  qed
  moreover have "RegExp_test r (c # cs) \<longleftrightarrow> match_here r (c # cs) \<or> RegExp_test r cs" by simp
  moreover have "match_here r (c # cs) \<longleftrightarrow> ?H" by (rule match_here_iff)
  ultimately show ?case using Cons.IH by simp
qed


section \<open>Validation and navigation\<close>

lemma is_string_cases: "is_string v \<Longrightarrow> \<exists>s. v = Str s"
  by (cases v) auto

lemma required_Str:
  "get_prop fd f = Str x \<Longrightarrow>
   required fd f msg e = Inr (if list_all isWhiteSpace x then e(f \<mapsto> msg) else e)"
  by (simp add: required_def trim_empty_iff)

lemma newErrors_step0:
  assumes "currentStep s = 0" "get_prop (formData s) ''name'' = Str n"
    "get_prop (formData s) ''email'' = Str e"
  shows "newErrors_of s = Inr
     (let e1 = (if list_all isWhiteSpace n then [''name'' \<mapsto> ''Name is required''] else Map.empty)
      in if list_all isWhiteSpace e then e1(''email'' \<mapsto> ''Email is required'')
         else if \<not> RegExp_test email_regex e then e1(''email'' \<mapsto> ''Email is invalid'')
         else e1)"
  using assms by (simp add: newErrors_of_def required_Str trim_empty_iff Let_def)

lemma newErrors_step1:
  assumes "currentStep s = 1"
  shows "newErrors_of s = Inr
     (let e1 = (if \<not> truthy (get_prop (formData s) ''birthDate'')
                then [''birthDate'' \<mapsto> ''Birth date is required''] else Map.empty)
      in if \<not> truthy (get_prop (formData s) ''birthTime'')
         then e1(''birthTime'' \<mapsto> ''Birth time is required'') else e1)"
  using assms by (simp add: newErrors_of_def Let_def)

lemma newErrors_step2:
  assumes "currentStep s = 2" "get_prop (formData s) ''birthCity'' = Str a"
    "get_prop (formData s) ''birthCountry'' = Str b"
  shows "newErrors_of s = Inr
     (let e1 = (if list_all isWhiteSpace a then [''birthCity'' \<mapsto> ''Birth city is required''] else Map.empty)
      in if list_all isWhiteSpace b then e1(''birthCountry'' \<mapsto> ''Birth country is required'')
         else e1)"
  using assms by (simp add: newErrors_of_def required_Str Let_def)

lemma newErrors_typed:
  assumes "FormData_typed (formData s)" "currentStep s \<in> {0, 1, 2}"
  shows "\<exists>errs. newErrors_of s = Inr errs \<and> (errs = Map.empty \<longleftrightarrow> required_fields_pass s)"
proof -
  from assms(1) obtain n e a b where str:
    "get_prop (formData s) ''name'' = Str n" "get_prop (formData s) ''email'' = Str e"
    "get_prop (formData s) ''birthCity'' = Str a" "get_prop (formData s) ''birthCountry'' = Str b"
    unfolding FormData_typed_def by (meson is_string_cases)
  consider "currentStep s = 0" | "currentStep s = 1" | "currentStep s = 2"
    using assms(2) by auto
  then show ?thesis
  proof cases
    case 1
    show ?thesis
      using 1 str newErrors_step0[OF 1 str(1) str(2)]
      by (simp add: required_fields_pass_def present_def email_format_ok_def Let_def)
  next
    case 2
    show ?thesis
      using 2 newErrors_step1[OF 2]
      by (simp add: required_fields_pass_def Let_def)
  next
    case 3
    show ?thesis
      using 3 str newErrors_step2[OF 3 str(3) str(4)]
      by (simp add: required_fields_pass_def present_def Let_def)
  qed
qed

lemma handleNext_blocked:
  assumes "newErrors_of s = Inr errs" "errs \<noteq> Map.empty"
  shows "handleNext s = Inr (s\<lparr>errors := errs\<rparr>, [])"
  using assms by (simp add: handleNext_def validateCurrentStep_def)

lemma handleNext_advance:
  assumes "newErrors_of s = Inr Map.empty" "currentStep s < 2"
  shows "handleNext s = Inr (s\<lparr>errors := Map.empty, currentStep := currentStep s + 1\<rparr>, [])"
  using assms by (simp add: handleNext_def validateCurrentStep_def steps_def)

text \<open>
  Claim C1. On each of the three steps, for form data of the declared type: when a required
  field of the current step fails its check, \<open>handleNext\<close> sets \<open>errors\<close> to a map that is not
  empty and leaves the step index (and the form data) as it was; when all checks pass and the
  step is not the last, the step index goes up by exactly one.
\<close>

theorem handleNext_guard:
  assumes "FormData_typed (formData s)" and "currentStep s \<in> {0, 1, 2}"
  shows "(\<not> required_fields_pass s \<longrightarrow>
            (\<exists>s'. handleNext s = Inr (s', []) \<and> errors s' \<noteq> Map.empty \<and>
                  currentStep s' = currentStep s \<and> formData s' = formData s)) \<and>
         (required_fields_pass s \<and> currentStep s < int (length steps) - 1 \<longrightarrow>
            (\<exists>s'. handleNext s = Inr (s', []) \<and> currentStep s' = currentStep s + 1 \<and>
                  errors s' = Map.empty \<and> formData s' = formData s))"
proof -
  from newErrors_typed[OF assms] obtain errs where
    e: "newErrors_of s = Inr errs" "errs = Map.empty \<longleftrightarrow> required_fields_pass s" by blast
  show ?thesis
  proof (intro conjI impI)
    assume "\<not> required_fields_pass s"
    then have "errs \<noteq> Map.empty" using e(2) by simp
    from handleNext_blocked[OF e(1) this]
    show "\<exists>s'. handleNext s = Inr (s', []) \<and> errors s' \<noteq> Map.empty \<and>
                  currentStep s' = currentStep s \<and> formData s' = formData s"
      using \<open>errs \<noteq> Map.empty\<close> by simp
  next
    assume a: "required_fields_pass s \<and> currentStep s < int (length steps) - 1"
    then have "newErrors_of s = Inr Map.empty" "currentStep s < 2" using e by (simp_all add: steps_def)
    from handleNext_advance[OF this]
    show "\<exists>s'. handleNext s = Inr (s', []) \<and> currentStep s' = currentStep s + 1 \<and>
                  errors s' = Map.empty \<and> formData s' = formData s"
      by simp
  qed
qed

lemma initial_typed: "FormData_typed initialFormData"
  by (simp add: FormData_typed_def initialFormData_def get_prop_def)

theorem handleNext_guard_witness:
  "FormData_typed (formData initial_state) \<and> currentStep initial_state \<in> {0, 1, 2} \<and>
   \<not> required_fields_pass initial_state \<and>
   (\<exists>s'. handleNext initial_state = Inr (s', []) \<and> errors s' \<noteq> Map.empty \<and>
         currentStep s' = 0) \<and>
   required_fields_pass (initial_state\<lparr>formData :=
       initialFormData(''name'' \<mapsto> Str ''Asha'', ''email'' \<mapsto> Str ''a@b.c'')\<rparr>) \<and>
   (\<exists>s'. handleNext (initial_state\<lparr>formData :=
       initialFormData(''name'' \<mapsto> Str ''Asha'', ''email'' \<mapsto> Str ''a@b.c'')\<rparr>) = Inr (s', []) \<and>
         currentStep s' = 1)"
proof -
  let ?s = "initial_state\<lparr>formData :=
       initialFormData(''name'' \<mapsto> Str ''Asha'', ''email'' \<mapsto> Str ''a@b.c'')\<rparr>"
  have t0: "FormData_typed (formData initial_state)"
    by (simp add: initial_state_def FormData_typed_def initialFormData_def get_prop_def)
  have t1: "FormData_typed (formData ?s)"
    by (simp add: initial_state_def FormData_typed_def initialFormData_def get_prop_def)
  have c0: "currentStep initial_state \<in> {0, 1, 2}" and c1: "currentStep ?s \<in> {0, 1, 2}"
    by (simp_all add: initial_state_def)
  have n0: "\<not> required_fields_pass initial_state"
    by (simp add: required_fields_pass_def initial_state_def initialFormData_def get_prop_def
        present_def)
  have n1: "required_fields_pass ?s"
    by (simp add: required_fields_pass_def initial_state_def initialFormData_def get_prop_def
        present_def email_format_ok_def email_regex_def match_here_def isWhiteSpace_def)
  have l: "currentStep ?s < int (length steps) - 1" by (simp add: initial_state_def steps_def)
  show ?thesis
    using handleNext_guard[OF t0 c0] handleNext_guard[OF t1 c1] t0 c0 n0 n1 l
    by (auto simp: initial_state_def)
qed

lemma validate_idem:
  assumes "validateCurrentStep s = Inr (s1, ok)"
  shows "validateCurrentStep s1 = Inr (s1, ok)"
proof -
  from assms obtain errs where e: "newErrors_of s = Inr errs" "s1 = s\<lparr>errors := errs\<rparr>"
    "ok = (dom errs = {})"
    by (auto simp: validateCurrentStep_def split: sum.splits)
  have "newErrors_of s1 = newErrors_of s" using e(2) by (simp add: newErrors_of_def cong: if_cong)
  then show ?thesis using e by (simp add: validateCurrentStep_def)
qed

lemma validate_frame:
  assumes "validateCurrentStep s = Inr (s1, ok)"
  shows "formData s1 = formData s \<and> currentStep s1 = currentStep s"
  using assms by (auto simp: validateCurrentStep_def split: sum.splits)

text \<open>
  Claim C2. On the last step, when \<open>validateCurrentStep\<close> returns true, \<open>handleSubmit\<close> shows
  the success toast and asks for the route \<^verbatim>\<open>/results\<close> after 1500 milliseconds, and these are
  all its effects: nothing of the form data is in them and nothing is stored or sent. The
  Submit button (\<open>handleNext\<close> on the last step) does the same.
\<close>

theorem handleSubmit_effects:
  assumes "currentStep s = int (length steps) - 1"
    and "validateCurrentStep s = Inr (s1, True)"
  shows "handleSubmit s =
           Inr (s1, [ToastSuccess ''Form submitted successfully!''
                       ''Redirecting to your results...'',
                     SetTimeout [RouterPush ''/results''] 1500]) \<and>
         handleNext s = handleSubmit s \<and>
         formData s1 = formData s \<and> currentStep s1 = currentStep s \<and>
         errors s1 = Map.empty"
proof -
  have a: "handleSubmit s =
           Inr (s1, [ToastSuccess ''Form submitted successfully!''
                       ''Redirecting to your results...'',
                     SetTimeout [RouterPush ''/results''] 1500])"
    using assms(2) by (simp add: handleSubmit_def)
  have "handleSubmit s1 = handleSubmit s"
    using assms(2) validate_idem[OF assms(2)] by (simp add: handleSubmit_def)
  then have b: "handleNext s = handleSubmit s"
    using assms by (simp add: handleNext_def)
  have c: "errors s1 = Map.empty"
    using assms(2) by (auto simp: validateCurrentStep_def split: sum.splits)
  show ?thesis using a b c validate_frame[OF assms(2)] by simp
qed

theorem handleSubmit_effects_witness:
  "currentStep delhi_state = int (length steps) - 1 \<and>
   validateCurrentStep delhi_state = Inr (delhi_state, True) \<and>
   handleNext delhi_state =
     Inr (delhi_state, [ToastSuccess ''Form submitted successfully!''
                       ''Redirecting to your results...'',
                     SetTimeout [RouterPush ''/results''] 1500])"
proof -
  have s: "currentStep delhi_state = int (length steps) - 1"
    by (simp add: delhi_state_def steps_def)
  have v: "validateCurrentStep delhi_state = Inr (delhi_state, True)"
    by (simp add: validateCurrentStep_def newErrors_of_def required_def delhi_state_def
        initialFormData_def get_prop_def trim_def isWhiteSpace_def)
  show ?thesis using handleSubmit_effects[OF s v] s v by simp
qed

text \<open>What the format check of the email address means: the pattern occurs in it.\<close>

lemma lang_email_regex:
  "lang email_regex = {a @ ''@'' @ b @ ''.'' @ c | a b c. solid a \<and> solid b \<and> solid c}"
  unfolding email_regex_def solid_def
  apply (simp only: lang.simps lang_item.simps class_matches.simps)
  apply (rule set_eqI)
  apply (rule iffI)
   apply clarsimp
   apply blast
  apply clarsimp
  apply (metis append_Cons append_Nil)
  done

lemma email_regex_iff:
  "RegExp_test email_regex e \<longleftrightarrow>
     (\<exists>p a b c x. e = p @ a @ ''@'' @ b @ ''.'' @ c @ x \<and> solid a \<and> solid b \<and> solid c)"
proof -
  have "RegExp_test email_regex e \<longleftrightarrow> (\<exists>p x. \<exists>w \<in> lang email_regex. e = p @ w @ x)"
    by (rule RegExp_test_iff)
  also have "\<dots> \<longleftrightarrow> (\<exists>p a b c x. e = p @ (a @ ''@'' @ b @ ''.'' @ c) @ x \<and> solid a \<and> solid b \<and> solid c)"
    unfolding lang_email_regex by blast
  finally show ?thesis by simp
qed


text \<open>
  Claim C3. On step 0, with strings for name and email, Next leaves the entry
  \<open>name = ''Name is required''\<close> exactly when the name is empty or white space only; for the
  email it leaves \<open>''Email is required''\<close> when the email is empty or white space only,
  \<open>''Email is invalid''\<close> when it is not blank and the regular expression does not match, and
  no entry otherwise. With any of these entries the step index stays 0; with none it
  becomes 1.
\<close>

theorem personal_info_validation:
  assumes "currentStep s = 0"
    and "get_prop (formData s) ''name'' = Str n"
    and "get_prop (formData s) ''email'' = Str e"
  shows "\<exists>s'. handleNext s = Inr (s', []) \<and>
     errors s' ''name'' = (if list_all isWhiteSpace n then Some ''Name is required'' else None) \<and>
     errors s' ''email'' =
       (if list_all isWhiteSpace e then Some ''Email is required''
        else if \<not> RegExp_test email_regex e then Some ''Email is invalid'' else None) \<and>
     currentStep s' =
       (if list_all isWhiteSpace n \<or> list_all isWhiteSpace e \<or> \<not> RegExp_test email_regex e
        then 0 else 1)"
proof -
  note ne = newErrors_step0[OF assms]
  show ?thesis
  proof (cases "list_all isWhiteSpace n \<or> list_all isWhiteSpace e \<or> \<not> RegExp_test email_regex e")
    case True
    obtain errs where errs: "newErrors_of s = Inr errs" "errs \<noteq> Map.empty"
      "errs ''name'' = (if list_all isWhiteSpace n then Some ''Name is required'' else None)"
      "errs ''email'' = (if list_all isWhiteSpace e then Some ''Email is required''
        else if \<not> RegExp_test email_regex e then Some ''Email is invalid'' else None)"
      using ne True by (auto simp: Let_def)
    show ?thesis using handleNext_blocked[OF errs(1,2)] errs(3,4) True assms(1) by simp
  next
    case False
    then have "newErrors_of s = Inr Map.empty" using ne by (simp add: Let_def)
    from handleNext_advance[OF this] show ?thesis using False assms(1) by simp
  qed
qed


theorem personal_info_validation_witness:
  "currentStep (initial_state\<lparr>formData :=
       initialFormData(''name'' \<mapsto> Str ''  '', ''email'' \<mapsto> Str ''bob@x'')\<rparr>) = 0 \<and>
   (\<exists>s'. handleNext (initial_state\<lparr>formData :=
       initialFormData(''name'' \<mapsto> Str ''  '', ''email'' \<mapsto> Str ''bob@x'')\<rparr>) = Inr (s', []) \<and>
     errors s' ''name'' = Some ''Name is required'' \<and>
     errors s' ''email'' = Some ''Email is invalid'' \<and>
     currentStep s' = 0)"
proof -
  let ?s = "initial_state\<lparr>formData :=
       initialFormData(''name'' \<mapsto> Str ''  '', ''email'' \<mapsto> Str ''bob@x'')\<rparr>"
  have c: "currentStep ?s = 0" by (simp add: initial_state_def)
  have n: "get_prop (formData ?s) ''name'' = Str ''  ''"
    and e: "get_prop (formData ?s) ''email'' = Str ''bob@x''"
    by (simp_all add: get_prop_def)
  show ?thesis using personal_info_validation[OF c n e] c
    by (simp add: isWhiteSpace_def email_regex_def match_here_def)
qed

section \<open>Reset\<close>

text \<open>
  Claim C6. From every state, \<open>handleReset\<close> leaves the initial state: every field of the
  form data at its initial value (the five strings empty, \<open>birthDate\<close> undefined,
  \<open>latitude\<close> and \<open>longitude\<close> null, and no other property), step index 0 and an empty
  error map. Its only effect is the toast.
\<close>

theorem handleReset_restores:
  "fst (handleReset s) = initial_state \<and>
   initial_state = \<lparr>currentStep = 0, formData = initialFormData, errors = Map.empty\<rparr> \<and>
   map (get_prop initialFormData)
     [''name'', ''email'', ''birthTime'', ''birthCity'', ''birthCountry''] =
     [Str [], Str [], Str [], Str [], Str []] \<and>
   get_prop initialFormData ''birthDate'' = Undefined \<and>
   get_prop initialFormData ''latitude'' = Null \<and>
   get_prop initialFormData ''longitude'' = Null \<and>
   dom initialFormData = {''name'', ''email'', ''birthDate'', ''birthTime'', ''birthCity'',
     ''birthCountry'', ''latitude'', ''longitude''} \<and>
   snd (handleReset s) = [ToastInfo ''Form has been reset'']"
  by (auto simp: handleReset_def initial_state_def initialFormData_def get_prop_def)

section \<open>The step index stays in range\<close>

lemma validate_step:
  "validateCurrentStep s = Inr (s1, ok) \<Longrightarrow> currentStep s1 = currentStep s"
  by (auto simp: validateCurrentStep_def split: sum.splits)

lemma handleSubmit_step:
  "handleSubmit s = Inr (s', effs) \<Longrightarrow> currentStep s' = currentStep s"
  by (auto simp: handleSubmit_def dest: validate_step split: sum.splits prod.splits if_splits)

lemma handleNext_step:
  assumes "handleNext s = Inr (s', effs)"
  shows "currentStep s' = currentStep s \<or>
         (currentStep s < int (length steps) - 1 \<and> currentStep s' = currentStep s + 1)"
proof (cases "validateCurrentStep s")
  case (Inl e)
  then show ?thesis using assms by (simp add: handleNext_def)
next
  case (Inr r)
  obtain s1 ok where r: "r = (s1, ok)" by (cases r)
  note v = validate_step[OF Inr[unfolded r]]
  show ?thesis
  proof (cases "ok \<and> \<not> currentStep s < int (length steps) - 1")
    case True
    then have "handleSubmit s1 = Inr (s', effs)" using assms Inr r by (simp add: handleNext_def)
    from handleSubmit_step[OF this] v show ?thesis by simp
  next
    case False
    then show ?thesis using assms Inr r v by (auto simp: handleNext_def split: if_splits)
  qed
qed

lemma dispatch_Next_step:
  "currentStep (fst (dispatch js Next s)) = currentStep s \<or>
   (currentStep s < int (length steps) - 1 \<and>
    currentStep (fst (dispatch js Next s)) = currentStep s + 1)"
proof (cases "handleNext s")
  case (Inl e) then show ?thesis by simp
next
  case (Inr r)
  obtain s' effs where "r = (s', effs)" by (cases r)
  with Inr handleNext_step[of s s' effs] show ?thesis by simp
qed

lemma updateFormData_step: "currentStep (updateFormData f v s) = currentStep s"
  by (simp add: updateFormData_def handleUpdateFormData_def Let_def split: option.splits)

lemma dispatch_in_range:
  assumes "step_in_range s"
  shows "step_in_range (fst (dispatch js e s))"
proof (cases e)
  case Next
  then show ?thesis using assms dispatch_Next_step[of js s] by (auto simp: step_in_range_def)
next
  case Back
  then show ?thesis using assms by (simp add: step_in_range_def handlePrevious_def)
next
  case Reset
  then show ?thesis by (simp add: step_in_range_def handleReset_def steps_def)
next
  case SaveProgress
  then show ?thesis using assms by (simp add: step_in_range_def handleSaveProgress_def)
next
  case (Update f v)
  then show ?thesis using assms by (simp add: step_in_range_def updateFormData_step)
qed

lemma form_run_in_range:
  "step_in_range s \<Longrightarrow> step_in_range (form_run js evs s)"
  by (induction evs arbitrary: s) (simp_all add: dispatch_in_range)

text \<open>
  Claim C9. After any sequence of Next, Back, Reset, Save Progress and field updates from
  the initial state the step index lies between 0 and 2, the index of the last step. Next
  never takes it above 2, Back never below 0, Reset sets it to 0.
\<close>

theorem currentStep_bounds:
  "0 \<le> currentStep (form_run js evs initial_state) \<and>
   currentStep (form_run js evs initial_state) \<le> 2 \<and>
   int (length steps) - 1 = 2 \<and>
   currentStep initial_state = 0 \<and>
   currentStep (fst (dispatch js Next s)) \<le> max (currentStep s) 2 \<and>
   min (currentStep s) 0 \<le> currentStep (handlePrevious s) \<and>
   currentStep (fst (handleReset s)) = 0"
proof -
  have "step_in_range initial_state" by (simp add: step_in_range_def initial_state_def steps_def)
  from form_run_in_range[OF this, of js evs]
  have a: "0 \<le> currentStep (form_run js evs initial_state) \<and>
   currentStep (form_run js evs initial_state) \<le> 2"
    by (simp add: step_in_range_def steps_def)
  have b: "currentStep (fst (dispatch js Next s)) \<le> max (currentStep s) 2"
    using dispatch_Next_step[of js s] by (auto simp: steps_def)
  have c: "min (currentStep s) 0 \<le> currentStep (handlePrevious s)"
    by (simp add: handlePrevious_def)
  show ?thesis using a b c by (simp add: steps_def initial_state_def handleReset_def)
qed

text \<open>The bounds at work: Submit on the last step stays there, Back on the first stays there.\<close>

lemma handleNext_delhi:
  "handleNext delhi_state =
     Inr (delhi_state, [ToastSuccess ''Form submitted successfully!''
                          ''Redirecting to your results...'',
                        SetTimeout [RouterPush ''/results''] 1500])"
  by (simp add: handleNext_def handleSubmit_def validateCurrentStep_def newErrors_of_def
      required_def delhi_state_def initialFormData_def get_prop_def trim_def isWhiteSpace_def
      steps_def)

theorem currentStep_bounds_witness:
  "currentStep (form_run (\<lambda>fd. []) [Back, Reset] initial_state) = 0 \<and>
   currentStep delhi_state = 2 \<and>
   currentStep (fst (dispatch (\<lambda>fd. []) Next delhi_state)) = 2 \<and>
   currentStep (handlePrevious initial_state) = 0"
proof -
  have c: "currentStep delhi_state = 2" by (simp add: delhi_state_def)
  show ?thesis
    using currentStep_bounds[of "\<lambda>fd. []" "[Back, Reset]" delhi_state]
      currentStep_bounds[of "\<lambda>fd. []" "[]" initial_state]
    by (simp add: handleNext_delhi c handlePrevious_def handleReset_def initial_state_def)
qed

section \<open>Updating a field\<close>

lemma messages_nonempty_upd:
  "messages_nonempty e \<Longrightarrow> msg \<noteq> [] \<Longrightarrow> messages_nonempty (e(f \<mapsto> msg))"
  unfolding messages_nonempty_def by (auto simp: ran_def)

lemma messages_nonempty_del:
  "messages_nonempty e \<Longrightarrow> messages_nonempty (e(f := None))"
  unfolding messages_nonempty_def by (auto simp: ran_def)

lemma messages_nonempty_empty: "messages_nonempty Map.empty"
  by (simp add: messages_nonempty_def)

lemma required_nonempty:
  "required fd f msg e = Inr e' \<Longrightarrow> messages_nonempty e \<Longrightarrow> msg \<noteq> [] \<Longrightarrow> messages_nonempty e'"
  by (auto simp: required_def messages_nonempty_upd split: jsval.splits if_splits)

lemma newErrors_nonempty:
  assumes "newErrors_of s = Inr errs"
  shows "messages_nonempty errs"
proof -
  consider "currentStep s = 0" | "currentStep s = 1" | "currentStep s = 2"
    | "currentStep s \<noteq> 0" "currentStep s \<noteq> 1" "currentStep s \<noteq> 2" by blast
  then show ?thesis
  proof cases
    case 1
    then obtain e1 where e1: "required (formData s) ''name'' ''Name is required'' Map.empty = Inr e1"
      using assms by (auto simp: newErrors_of_def Let_def split: sum.splits)
    from required_nonempty[OF e1 messages_nonempty_empty] have m: "messages_nonempty e1" by simp
    show ?thesis
      using assms 1 e1 m
      by (auto simp: newErrors_of_def Let_def messages_nonempty_upd split: jsval.splits if_splits)
  next
    case 2
    then show ?thesis using assms
      by (auto simp: newErrors_of_def Let_def messages_nonempty_upd messages_nonempty_empty
          split: if_splits)
  next
    case 3
    then obtain e1 where e1: "required (formData s) ''birthCity'' ''Birth city is required'' Map.empty = Inr e1"
      and e2: "required (formData s) ''birthCountry'' ''Birth country is required'' e1 = Inr errs"
      using assms by (auto simp: newErrors_of_def Let_def split: sum.splits)
    from required_nonempty[OF e1 messages_nonempty_empty] have "messages_nonempty e1" by simp
    from required_nonempty[OF e2 this] show ?thesis by simp
  next
    case 4
    then show ?thesis using assms by (auto simp: newErrors_of_def Let_def messages_nonempty_empty)
  qed
qed

lemma validate_nonempty:
  "validateCurrentStep s = Inr (s1, ok) \<Longrightarrow> messages_nonempty (errors s1)"
  by (auto simp: validateCurrentStep_def newErrors_nonempty split: sum.splits)

lemma handleSubmit_nonempty:
  "handleSubmit s = Inr (s', effs) \<Longrightarrow> messages_nonempty (errors s')"
  by (auto simp: handleSubmit_def dest: validate_nonempty split: sum.splits prod.splits if_splits)

lemma handleNext_nonempty:
  assumes "handleNext s = Inr (s', effs)"
  shows "messages_nonempty (errors s')"
proof (cases "validateCurrentStep s")
  case (Inl e)
  then show ?thesis using assms by (simp add: handleNext_def)
next
  case (Inr r)
  obtain s1 ok where r: "r = (s1, ok)" by (cases r)
  note v = validate_nonempty[OF Inr[unfolded r]]
  show ?thesis
  proof (cases "ok \<and> \<not> currentStep s < int (length steps) - 1")
    case True
    then have "handleSubmit s1 = Inr (s', effs)" using assms Inr r by (simp add: handleNext_def)
    from handleSubmit_nonempty[OF this] show ?thesis .
  next
    case False
    then show ?thesis using assms Inr r v by (auto simp: handleNext_def split: if_splits)
  qed
qed

lemma updateFormData_errors:
  "errors (updateFormData f v s) =
     (case errors s f of None \<Rightarrow> errors s
      | Some msg \<Rightarrow> if msg \<noteq> [] then (errors s)(f := None) else errors s)"
  by (simp add: updateFormData_def handleUpdateFormData_def Let_def split: option.splits)

lemma dispatch_nonempty:
  assumes "messages_nonempty (errors s)"
  shows "messages_nonempty (errors (fst (dispatch js e s)))"
proof (cases e)
  case Next
  show ?thesis
  proof (cases "handleNext s")
    case (Inl x) then show ?thesis using Next assms by simp
  next
    case (Inr r)
    obtain s' effs where "r = (s', effs)" by (cases r)
    with Inr handleNext_nonempty[of s s' effs] Next show ?thesis by simp
  qed
next
  case Back
  then show ?thesis using assms by (simp add: handlePrevious_def)
next
  case Reset
  then show ?thesis by (simp add: handleReset_def messages_nonempty_empty)
next
  case SaveProgress
  then show ?thesis using assms by (simp add: handleSaveProgress_def)
next
  case (Update f v)
  then show ?thesis using assms
    by (auto simp: updateFormData_errors messages_nonempty_del split: option.splits)
qed

lemma form_run_nonempty:
  "messages_nonempty (errors s) \<Longrightarrow> messages_nonempty (errors (form_run js evs s))"
  by (induction evs arbitrary: s) (simp_all add: dispatch_nonempty)

lemma reachable_nonempty: "messages_nonempty (errors (form_run js evs initial_state))"
  by (rule form_run_nonempty) (simp add: initial_state_def messages_nonempty_empty)

text \<open>
  Claim C10. In every state the form can reach, \<open>updateFormData field v\<close> sets that one
  property of the form data and changes no other, removes the entry of \<open>field\<close> from the
  error map (so an entry goes exactly when there was one) and changes no other entry, and
  leaves the step index alone.
\<close>

theorem updateFormData_frame:
  assumes "s = form_run js evs initial_state"
  shows "formData (updateFormData field v s) = (formData s)(field \<mapsto> v) \<and>
         errors (updateFormData field v s) = (errors s)(field := None) \<and>
         currentStep (updateFormData field v s) = currentStep s"
proof -
  have m: "messages_nonempty (errors s)" unfolding assms by (rule reachable_nonempty)
  have "errors (updateFormData field v s) = (errors s)(field := None)"
  proof (cases "errors s field")
    case None
    then have "(errors s)(field := None) = errors s" by (metis fun_upd_triv)
    then show ?thesis using None by (simp add: updateFormData_errors)
  next
    case (Some msg)
    then have "msg \<noteq> []" using m by (auto simp: messages_nonempty_def ran_def)
    then show ?thesis using Some by (simp add: updateFormData_errors)
  qed
  moreover have "formData (updateFormData field v s) = (formData s)(field \<mapsto> v)"
    by (simp add: updateFormData_def handleUpdateFormData_def Let_def split: option.splits)
  ultimately show ?thesis by (simp add: updateFormData_step)
qed

text \<open>After a blocked Next, typing a name removes the entry of \<open>name\<close> and no other.\<close>

theorem updateFormData_frame_witness:
  "errors (form_run (\<lambda>fd. []) [Next] initial_state) ''name'' = Some ''Name is required'' \<and>
   errors (updateFormData ''name'' (Str ''A'') (form_run (\<lambda>fd. []) [Next] initial_state))
     ''name'' = None \<and>
   errors (updateFormData ''name'' (Str ''A'') (form_run (\<lambda>fd. []) [Next] initial_state))
     ''email'' = Some ''Email is required'' \<and>
   formData (updateFormData ''name'' (Str ''A'') (form_run (\<lambda>fd. []) [Next] initial_state))
     ''name'' = Some (Str ''A'') \<and>
   formData (updateFormData ''name'' (Str ''A'') (form_run (\<lambda>fd. []) [Next] initial_state))
     ''email'' = Some (Str [])"
proof -
  have n: "handleNext initial_state =
      Inr (initial_state\<lparr>errors := [''name'' \<mapsto> ''Name is required'',
                                     ''email'' \<mapsto> ''Email is required'']\<rparr>, [])"
    by (simp add: handleNext_def validateCurrentStep_def newErrors_of_def required_def
        initial_state_def initialFormData_def get_prop_def trim_def)
  have r: "form_run (\<lambda>fd. []) [Next] initial_state =
      initial_state\<lparr>errors := [''name'' \<mapsto> ''Name is required'',
                                ''email'' \<mapsto> ''Email is required'']\<rparr>"
    by (simp add: n)
  show ?thesis
    unfolding r
    using updateFormData_frame[OF r[symmetric], of "''name''" "Str ''A''"]
    by (simp add: initial_state_def initialFormData_def)
qed

section \<open>Selecting a location\<close>

lemma handleUpdateFormData_formData:
  "formData (handleUpdateFormData c f v s) = (formData s)(f \<mapsto> v)"
  by (simp add: handleUpdateFormData_def Let_def split: option.splits)

lemma handleUpdateFormData_step:
  "currentStep (handleUpdateFormData c f v s) = currentStep s"
  by (simp add: handleUpdateFormData_def Let_def split: option.splits)

lemma handleLocationSelect_formData:
  "formData (fst (handleLocationSelect l (c, v))) =
     (formData c)(''birthCity'' \<mapsto> Str (city l), ''birthCountry'' \<mapsto> Str (country l),
       ''latitude'' \<mapsto> Num (lat l), ''longitude'' \<mapsto> Num (lng l))"
  by (simp add: handleLocationSelect_def Let_def handleUpdateFormData_formData)

lemma handleLocationSelect_view:
  "snd (handleLocationSelect l (c, v)) =
     v\<lparr>searchQuery := city l @ '', '' @ country l, searchResults := []\<rparr>"
  by (simp add: handleLocationSelect_def Let_def)

lemma rerender_frame: "form (rerender old p) = form p \<and> view (rerender old p) = view p"
  by (simp add: rerender_def run_effect_def)

text \<open>
  Claim C5. Selecting a location, any entry of the results included, sets \<open>birthCity\<close>,
  \<open>birthCountry\<close>, \<open>latitude\<close> and \<open>longitude\<close> of the form data to the entry's \<open>city\<close>,
  \<open>country\<close>, \<open>lat\<close> and \<open>lng\<close>, and empties \<open>searchResults\<close>. No other property of the form data
  changes, nor does the step index, and the re-run of the effect that follows the click
  changes neither.
\<close>

theorem handleLocationSelect_fills:
  "formData (fst (handleLocationSelect l (c, v))) ''birthCity'' = Some (Str (city l)) \<and>
   formData (fst (handleLocationSelect l (c, v))) ''birthCountry'' = Some (Str (country l)) \<and>
   formData (fst (handleLocationSelect l (c, v))) ''latitude'' = Some (Num (lat l)) \<and>
   formData (fst (handleLocationSelect l (c, v))) ''longitude'' = Some (Num (lng l)) \<and>
   searchResults (snd (handleLocationSelect l (c, v))) = [] \<and>
   (\<forall>f. f \<notin> {''birthCity'', ''birthCountry'', ''latitude'', ''longitude''} \<longrightarrow>
        formData (fst (handleLocationSelect l (c, v))) f = formData c f) \<and>
   currentStep (fst (handleLocationSelect l (c, v))) = currentStep c \<and>
   form (fst (page_step (SelectLocation l) p)) = fst (handleLocationSelect l (form p, view p)) \<and>
   searchResults (view (fst (page_step (SelectLocation l) p))) = []"
proof -
  have "currentStep (fst (handleLocationSelect l (c, v))) = currentStep c"
    by (simp add: handleLocationSelect_def Let_def handleUpdateFormData_step)
  moreover have "form (fst (page_step (SelectLocation l) p)) = fst (handleLocationSelect l (form p, view p))"
    by (simp add: rerender_frame split: prod.splits)
  moreover have "view (fst (page_step (SelectLocation l) p)) = snd (handleLocationSelect l (form p, view p))"
    by (simp add: rerender_frame split: prod.splits)
  ultimately show ?thesis
    by (simp add: handleLocationSelect_formData handleLocationSelect_view)
qed

theorem handleLocationSelect_fills_witness:
  "mockData ! 3 \<in> set (searchLocations ''mum'') \<and>
   map (formData (fst (handleLocationSelect (mockData ! 3)
          (delhi_state, \<lparr>searchQuery = ''mum'', searchResults = searchLocations ''mum'',
                          searching = False\<rparr>))))
     [''birthCity'', ''birthCountry'', ''latitude'', ''longitude'', ''name''] =
     [Some (Str ''Mumbai''), Some (Str ''India''), Some (Num 19.0760), Some (Num 72.8777),
      Some (Str [])] \<and>
   searchResults (snd (handleLocationSelect (mockData ! 3)
          (delhi_state, \<lparr>searchQuery = ''mum'', searchResults = searchLocations ''mum'',
                          searching = False\<rparr>))) = []"
proof -
  have m: "mockData ! 3 = \<lparr>city = ''Mumbai'', country = ''India'', lat = 19.0760, lng = 72.8777\<rparr>"
    by (simp add: mockData_def)
  have s: "searchLocations ''mum'' = [mockData ! 3]"
    unfolding m by code_simp
  show ?thesis
    using handleLocationSelect_fills[of "mockData ! 3" delhi_state
        "\<lparr>searchQuery = ''mum'', searchResults = searchLocations ''mum'', searching = False\<rparr>"]
    by (simp add: s m delhi_state_def initialFormData_def)
qed

section \<open>The location lookup\<close>

lemma String_includes_iff: "String_includes s t \<longleftrightarrow> (\<exists>pre post. s = pre @ t @ post)"
proof (induction s)
  case Nil
  then show ?case by auto
next
  case (Cons x xs)
  have "(\<exists>pre post. x # xs = pre @ t @ post) \<longleftrightarrow>
        (\<exists>post. x # xs = t @ post) \<or> (\<exists>pre post. xs = pre @ t @ post)"
  proof
    assume "\<exists>pre post. x # xs = pre @ t @ post"
    then obtain pre post where e: "x # xs = pre @ t @ post" by blast
    show "(\<exists>post. x # xs = t @ post) \<or> (\<exists>pre post. xs = pre @ t @ post)"
    proof (cases pre)
      case Nil then show ?thesis using e by auto
    next
      case (Cons a pre')
      then have "xs = pre' @ t @ post" using e by simp
      then show ?thesis by blast
    qed
  next
    assume "(\<exists>post. x # xs = t @ post) \<or> (\<exists>pre post. xs = pre @ t @ post)"
    then show "\<exists>pre post. x # xs = pre @ t @ post"
    proof
      assume "\<exists>post. x # xs = t @ post"
      then obtain post where "x # xs = [] @ t @ post" by auto
      then show ?thesis by blast
    next
      assume "\<exists>pre post. xs = pre @ t @ post"
      then obtain pre post where "x # xs = (x # pre) @ t @ post" by auto
      then show ?thesis by blast
    qed
  qed
  moreover have "prefix t (x # xs) \<longleftrightarrow> (\<exists>post. x # xs = t @ post)"
    by (simp add: prefix_def)
  ultimately show ?case using Cons.IH by simp
qed

lemma map_eq_iff_list_all2: "map f xs = map f ys \<longleftrightarrow> list_all2 (\<lambda>a b. f a = f b) xs ys"
proof (induction xs arbitrary: ys)
  case Nil then show ?case by auto
next
  case (Cons x xs) then show ?case by (cases ys) auto
qed

lemma includes_lower_iff:
  "String_includes (toLowerCase s) (toLowerCase q) \<longleftrightarrow> contains_ignoring_case s q"
proof
  assume "String_includes (toLowerCase s) (toLowerCase q)"
  then obtain pre post where "map toLowerCase_char s = pre @ map toLowerCase_char q @ post"
    unfolding String_includes_iff toLowerCase_def by blast
  then have "\<exists>us vs. s = us @ vs \<and> pre = map toLowerCase_char us \<and>
      map toLowerCase_char q @ post = map toLowerCase_char vs"
    by (rule map_eq_append_conv[THEN iffD1])
  then obtain a r where a: "s = a @ r"
    "map toLowerCase_char q @ post = map toLowerCase_char r" by blast
  from a(2) have "\<exists>us vs. r = us @ vs \<and> map toLowerCase_char q = map toLowerCase_char us \<and>
      post = map toLowerCase_char vs"
    by (rule append_eq_map_conv[THEN iffD1])
  then obtain m b where m: "r = m @ b" "map toLowerCase_char m = map toLowerCase_char q"
    by metis
  from m(2) have "list_all2 same_letter m q"
    unfolding map_eq_iff_list_all2 same_letter_def .
  with a(1) m(1) show "contains_ignoring_case s q"
    unfolding contains_ignoring_case_def by blast
next
  assume "contains_ignoring_case s q"
  then obtain pre mid post where s: "s = pre @ mid @ post" and l: "list_all2 same_letter mid q"
    unfolding contains_ignoring_case_def by blast
  from l have "map toLowerCase_char mid = map toLowerCase_char q"
    unfolding map_eq_iff_list_all2 same_letter_def .
  then have "toLowerCase s = toLowerCase pre @ toLowerCase q @ toLowerCase post"
    using s by (simp add: toLowerCase_def)
  then show "String_includes (toLowerCase s) (toLowerCase q)"
    unfolding String_includes_iff by blast
qed

lemma searchLocations_spec:
  "searchLocations q =
     (if q = [] then []
      else filter (\<lambda>l. contains_ignoring_case (city l) q \<or> contains_ignoring_case (country l) q)
             mockData)"
  by (simp add: searchLocations_def includes_lower_iff)


lemma only_cleanup_cleared:
  assumes "only_cleanup_pending p"
  shows "clearTimeout (cleanup p) (timers p) = Map.empty"
proof (rule ext)
  fix i
  show "clearTimeout (cleanup p) (timers p) i = None"
  proof (cases "cleanup p")
    case None
    then show ?thesis using assms by (auto simp: clearTimeout_def only_cleanup_pending_def)
  next
    case (Some c)
    then show ?thesis using assms
      by (cases "i = c") (auto simp: clearTimeout_def only_cleanup_pending_def)
  qed
qed

lemma run_effect_timers:
  assumes "only_cleanup_pending p"
  shows "timers (run_effect p) =
           [nextId p \<mapsto> \<lparr>due = clock p + 500, captured = searchQuery (view p)\<rparr>]"
  by (simp add: run_effect_def only_cleanup_cleared[OF assms])

lemma run_effect_fields:
  "view (run_effect p) = view p \<and> form (run_effect p) = form p \<and>
   clock (run_effect p) = clock p \<and> cleanup (run_effect p) = Some (nextId p) \<and>
   changedAt (run_effect p) = clock p"
  by (simp add: run_effect_def)

lemma run_effect_inv:
  assumes "only_cleanup_pending p"
  shows "page_inv (run_effect p)"
  unfolding page_inv_def only_cleanup_pending_def run_effect_timers[OF assms]
  by (auto simp: run_effect_fields split: if_splits)

lemma rerender_inv:
  assumes "page_inv p" and "timers p1 = timers p" and "cleanup p1 = cleanup p"
    and "changedAt p1 = changedAt p"
  shows "page_inv (rerender (searchQuery (view p)) p1)"
proof (cases "searchQuery (view p1) = searchQuery (view p)")
  case True
  then have "rerender (searchQuery (view p)) p1 = p1" by (simp add: rerender_def)
  moreover have "page_inv p1"
    using assms True unfolding page_inv_def only_cleanup_pending_def by simp
  ultimately show ?thesis by simp
next
  case False
  then have "rerender (searchQuery (view p)) p1 = run_effect p1" by (simp add: rerender_def)
  moreover have "only_cleanup_pending p1"
    using assms unfolding page_inv_def only_cleanup_pending_def by simp
  ultimately show ?thesis by (simp add: run_effect_inv)
qed

lemma callback_query: "searchQuery (fst (delaySearch_callback q v)) = searchQuery v"
  by (simp add: delaySearch_callback_def)

lemma page_step_inv:
  assumes "page_inv p"
  shows "page_inv (fst (page_step e p))"
proof (cases e)
  case (TypeQuery q)
  then show ?thesis using rerender_inv[OF assms, of "p\<lparr>view := (view p)\<lparr>searchQuery := q\<rparr>\<rparr>"]
    by simp
next
  case (SelectLocation l)
  obtain s v where sv: "handleLocationSelect l (form p, view p) = (s, v)"
    by (cases "handleLocationSelect l (form p, view p)")
  then show ?thesis using SelectLocation rerender_inv[OF assms, of "p\<lparr>form := s, view := v\<rparr>"]
    by simp
next
  case (Elapse d)
  then show ?thesis using assms unfolding page_inv_def only_cleanup_pending_def by simp
next
  case (Fire i)
  show ?thesis
  proof (cases "timers p i")
    case None
    then show ?thesis using Fire assms by simp
  next
    case (Some t)
    show ?thesis
    proof (cases "due t \<le> clock p")
      case False
      then show ?thesis using Fire Some assms by simp
    next
      case True
      obtain v looked where c: "delaySearch_callback (captured t) (view p) = (v, looked)"
        by (cases "delaySearch_callback (captured t) (view p)")
      then have q: "searchQuery v = searchQuery (view p)"
        using callback_query[of "captured t" "view p"] by simp
      have "fst (page_step e p) = p\<lparr>view := v, timers := (timers p)(i := None)\<rparr>"
        using Fire Some True c by simp
      then show ?thesis
        using assms q unfolding page_inv_def only_cleanup_pending_def by (auto split: if_splits)
    qed
  qed
qed

lemma page_run_inv: "page_inv p \<Longrightarrow> page_inv (page_run evs p)"
  by (induction evs arbitrary: p) (simp_all add: page_step_inv)

lemma mount_inv: "page_inv (mount s0)"
  unfolding mount_def by (rule run_effect_inv) (simp add: only_cleanup_pending_def)

lemma lookup_only_on_fire:
  assumes "snd (page_step e p) = Some lq"
  shows "\<exists>i t. e = Fire i \<and> timers p i = Some t \<and> due t \<le> clock p \<and> lq = captured t \<and>
           length lq > 2 \<and> searchResults (view (fst (page_step e p))) = searchLocations lq"
proof (cases e)
  case (Fire i)
  then obtain t where t: "timers p i = Some t" "due t \<le> clock p"
    using assms by (auto split: option.splits if_splits)
  then have "snd (delaySearch_callback (captured t) (view p)) = Some lq"
    using assms Fire by (simp split: prod.splits)
  then have "length (captured t) > 2" "lq = captured t"
    by (auto simp: delaySearch_callback_def split: if_splits)
  then show ?thesis using Fire t by (simp add: delaySearch_callback_def split: prod.splits)
next
  case (TypeQuery q) then show ?thesis using assms by simp
next
  case (SelectLocation l) then show ?thesis using assms by (simp split: prod.splits)
next
  case (Elapse d) then show ?thesis using assms by simp
qed

lemma query_change_reruns:
  assumes "searchQuery (view (fst (page_step e p))) \<noteq> searchQuery (view p)"
  shows "\<exists>p1. fst (page_step e p) = run_effect p1 \<and> timers p1 = timers p \<and>
           cleanup p1 = cleanup p \<and> nextId p1 = nextId p \<and> clock p1 = clock p"
proof (cases e)
  case (TypeQuery q)
  let ?p1 = "p\<lparr>view := (view p)\<lparr>searchQuery := q\<rparr>\<rparr>"
  have "fst (page_step e p) = run_effect ?p1"
    using assms TypeQuery by (auto simp: rerender_def split: if_splits)
  then show ?thesis by (intro exI[of _ ?p1]) simp
next
  case (SelectLocation l)
  obtain s v where sv: "handleLocationSelect l (form p, view p) = (s, v)"
    by (cases "handleLocationSelect l (form p, view p)")
  let ?p1 = "p\<lparr>form := s, view := v\<rparr>"
  have "fst (page_step e p) = run_effect ?p1"
    using assms SelectLocation sv by (auto simp: rerender_def split: if_splits)
  then show ?thesis by (intro exI[of _ ?p1]) simp
next
  case (Elapse d) then show ?thesis using assms by simp
next
  case (Fire i)
  have "searchQuery (view (fst (page_step (Fire i) p))) = searchQuery (view p)"
    using callback_query[of _ "view p"]
    by (auto simp: delaySearch_callback_def split: option.splits if_splits)
  then show ?thesis using assms Fire by simp
qed

lemma changedAt_step:
  "changedAt (fst (page_step e p)) =
     (if searchQuery (view (fst (page_step e p))) \<noteq> searchQuery (view p)
      then clock p else changedAt p)"
proof (cases "searchQuery (view (fst (page_step e p))) \<noteq> searchQuery (view p)")
  case True
  from query_change_reruns[OF True] show ?thesis using True by (auto simp: run_effect_fields)
next
  case False
  have "changedAt (fst (page_step e p)) = changedAt p"
  proof (cases e)
    case (TypeQuery q)
    then show ?thesis using False by (auto simp: rerender_def run_effect_fields split: if_splits)
  next
    case (SelectLocation l)
    then show ?thesis using False
      by (auto simp: rerender_def run_effect_fields split: if_splits prod.splits)
  next
    case (Elapse d) then show ?thesis by simp
  next
    case (Fire i) then show ?thesis by (auto split: option.splits if_splits prod.splits)
  qed
  then show ?thesis using False by simp
qed

text \<open>
  Claim C4. \<open>searchLocations\<close> is a function of the query alone over the six entries of
  \<open>mockData\<close>: the empty list for the empty query, and otherwise exactly the entries, in
  order, whose city or country contains the query case-insensitively. In every page \<open>p\<close>
  reached from mounting the step, a step that calls the lookup is a timer firing; the query
  it passes is longer than 2 characters, is the current \<open>searchQuery\<close>, and was set at least
  500 milliseconds before. A step that changes \<open>searchQuery\<close> leaves exactly one pending
  timer, the new one: whatever was pending has been cleared. \<open>changedAt\<close> is indeed the time of
  the last change of the query.
\<close>

theorem searchLocations_debounced:
  assumes "p = page_run evs (mount s0)"
  shows "length mockData = 6 \<and>
    searchLocations [] = [] \<and>
    (q \<noteq> [] \<longrightarrow>
       searchLocations q =
         filter (\<lambda>l. contains_ignoring_case (city l) q \<or> contains_ignoring_case (country l) q)
           mockData) \<and>
    (snd (page_step e p) = Some lq \<longrightarrow>
       (\<exists>i. e = Fire i) \<and> length lq > 2 \<and> lq = searchQuery (view p) \<and>
       changedAt p + 500 \<le> clock p \<and>
       searchResults (view (fst (page_step e p))) = searchLocations lq) \<and>
    (searchQuery (view (fst (page_step e p))) \<noteq> searchQuery (view p) \<longrightarrow>
       timers (fst (page_step e p)) =
         [nextId p \<mapsto> \<lparr>due = clock p + 500,
                          captured = searchQuery (view (fst (page_step e p)))\<rparr>]) \<and>
    changedAt (fst (page_step e p)) =
      (if searchQuery (view (fst (page_step e p))) \<noteq> searchQuery (view p)
       then clock p else changedAt p)"
proof -
  have inv: "page_inv p" unfolding assms by (rule page_run_inv[OF mount_inv])
  have a: "length mockData = 6" by (simp add: mockData_def)
  have b: "searchLocations [] = []" by (simp add: searchLocations_def)
  have c: "q \<noteq> [] \<longrightarrow>
       searchLocations q =
         filter (\<lambda>l. contains_ignoring_case (city l) q \<or> contains_ignoring_case (country l) q)
           mockData"
    by (simp add: searchLocations_spec)
  have d: "snd (page_step e p) = Some lq \<longrightarrow>
       (\<exists>i. e = Fire i) \<and> length lq > 2 \<and> lq = searchQuery (view p) \<and>
       changedAt p + 500 \<le> clock p \<and>
       searchResults (view (fst (page_step e p))) = searchLocations lq"
  proof
    assume "snd (page_step e p) = Some lq"
    from lookup_only_on_fire[OF this] obtain i t where
      f: "e = Fire i" "timers p i = Some t" "due t \<le> clock p" "lq = captured t" "length lq > 2"
        "searchResults (view (fst (page_step e p))) = searchLocations lq" by blast
    from inv f(2) have "captured t = searchQuery (view p)" "due t = changedAt p + 500"
      unfolding page_inv_def by blast+
    with f show "(\<exists>i. e = Fire i) \<and> length lq > 2 \<and> lq = searchQuery (view p) \<and>
       changedAt p + 500 \<le> clock p \<and>
       searchResults (view (fst (page_step e p))) = searchLocations lq" by simp
  qed
  have e: "searchQuery (view (fst (page_step e p))) \<noteq> searchQuery (view p) \<longrightarrow>
       timers (fst (page_step e p)) =
         [nextId p \<mapsto> \<lparr>due = clock p + 500,
                          captured = searchQuery (view (fst (page_step e p)))\<rparr>]"
  proof
    assume "searchQuery (view (fst (page_step e p))) \<noteq> searchQuery (view p)"
    from query_change_reruns[OF this] obtain p1 where
      p1: "fst (page_step e p) = run_effect p1" "timers p1 = timers p" "cleanup p1 = cleanup p"
        "nextId p1 = nextId p" "clock p1 = clock p" by blast
    have "only_cleanup_pending p1"
      using inv p1 unfolding page_inv_def only_cleanup_pending_def by simp
    from run_effect_timers[OF this] show "timers (fst (page_step e p)) =
         [nextId p \<mapsto> \<lparr>due = clock p + 500,
                          captured = searchQuery (view (fst (page_step e p)))\<rparr>]"
      using p1 by (simp add: run_effect_fields)
  qed
  show ?thesis using a b c d e changedAt_step[of e p] by blast
qed


lemma typing_page_eq:
  "typing_page =
     \<lparr>form = initial_state,
      view = \<lparr>searchQuery = ''mum'', searchResults = [], searching = False\<rparr>,
      clock = 800, timers = [2 \<mapsto> \<lparr>due = 800, captured = ''mum''\<rparr>], nextId = 3,
      cleanup = Some 2, changedAt = 300\<rparr>"
  by (simp add: typing_page_def mount_def run_effect_def rerender_def clearTimeout_def
      numeral_2_eq_2)

lemma searchLocations_mum: "map city (searchLocations ''mum'') = [''Mumbai'']"
  by code_simp

lemma searchLocations_IND: "map city (searchLocations ''IND'') = [''Mumbai'', ''Delhi'']"
  by code_simp

theorem searchLocations_debounced_witness:
  "snd (page_step (Fire 2) typing_page) = Some ''mum'' \<and>
   clock typing_page = 800 \<and> changedAt typing_page = 300 \<and>
   map city (searchResults (view (fst (page_step (Fire 2) typing_page)))) = [''Mumbai''] \<and>
   snd (page_step (Fire 1) typing_page) = None \<and>
   map city (searchLocations ''IND'') = [''Mumbai'', ''Delhi'']"
proof -
  have f2: "snd (page_step (Fire 2) typing_page) = Some ''mum''"
    by (simp add: typing_page_eq delaySearch_callback_def)
  have f1: "snd (page_step (Fire 1) typing_page) = None"
    by (simp add: typing_page_eq)
  have c: "clock typing_page = 800 \<and> changedAt typing_page = 300"
    by (simp add: typing_page_eq)
  from searchLocations_debounced[OF typing_page_def, of "''IND''" "Fire 2" "''mum''"] f2
  have "searchResults (view (fst (page_step (Fire 2) typing_page))) = searchLocations ''mum''"
    by blast
  then show ?thesis using f1 f2 c by (simp add: searchLocations_mum searchLocations_IND)
qed

section \<open>The results do not depend on the input\<close>

lemma KundaliResults_Inr:
  assumes "KundaliResults fmt props = Inr v"
  shows "\<exists>d. v = KundaliResults_jsx props d"
proof (cases "get_prop props ''date''")
  case (DateObj t)
  then show ?thesis using assms by (auto simp: KundaliResults_def)
next
  case Undefined then show ?thesis using assms by (auto simp: KundaliResults_def)
next
  case Null then show ?thesis using assms by (auto simp: KundaliResults_def)
next
  case (Bool b) then show ?thesis using assms by (auto simp: KundaliResults_def split: if_splits)
next
  case (Num x) then show ?thesis using assms by (auto simp: KundaliResults_def split: if_splits)
next
  case (Str s) then show ?thesis using assms by (auto simp: KundaliResults_def split: if_splits)
next
  case (Obj r) then show ?thesis using assms by (auto simp: KundaliResults_def)
qed

lemma KundaliResults_total:
  assumes "is_date_or_undefined (get_prop props ''date'')"
  shows "\<exists>v. KundaliResults fmt props = Inr v"
  using assms
  by (cases "get_prop props ''date''") (simp_all add: KundaliResults_def)

lemma ResultsPage_timer_loaded:
  "isLoading (fst (ResultsPage_timer parse storage st)) = False"
  by (simp add: ResultsPage_timer_def Let_def split: option.splits sum.splits parsed.splits)

lemma planets_literal:
  "map (\<lambda>p. (planet p, sign p, house p, degree p,
              if retrograde p then ''Retrograde'' else ''Direct'')) planets =
   [(''Sun'', ''Aries'', 1, deg ''15'' ''23'', ''Direct''),
    (''Moon'', ''Taurus'', 2, deg ''8'' ''45'', ''Direct''),
    (''Mercury'', ''Pisces'', 12, deg ''2'' ''18'', ''Retrograde''),
    (''Venus'', ''Aquarius'', 11, deg ''25'' ''07'', ''Direct''),
    (''Mars'', ''Capricorn'', 10, deg ''19'' ''34'', ''Direct''),
    (''Jupiter'', ''Leo'', 5, deg ''11'' ''42'', ''Direct''),
    (''Saturn'', ''Scorpio'', 8, deg ''28'' ''56'', ''Retrograde''),
    (''Rahu'', ''Virgo'', 6, deg ''3'' ''12'', ''Direct''),
    (''Ketu'', ''Pisces'', 12, deg ''3'' ''12'', ''Direct'')]"
  by (simp add: planets_def)

lemma houses_literal:
  "map (\<lambda>h. (h_house h, h_sign h,
              if length (h_planets h) \<noteq> 0 then join '', '' (h_planets h) else ''-'')) houses =
   [(1, ''Aries'', ''Sun''), (2, ''Taurus'', ''Moon''), (3, ''Gemini'', ''-''),
    (4, ''Cancer'', ''-''), (5, ''Leo'', ''Jupiter''), (6, ''Virgo'', ''Rahu''),
    (7, ''Libra'', ''-''), (8, ''Scorpio'', ''Saturn''), (9, ''Sagittarius'', ''-''),
    (10, ''Capricorn'', ''Mars''), (11, ''Aquarius'', ''Venus''),
    (12, ''Pisces'', ''Mercury, Ketu'')]"
  by (simp add: houses_def)

lemma dashas_literal:
  "map (\<lambda>x. (period x, startDate x @ '' - '' @ endDate x)) dashas =
   [(''Ketu Mahadasha'', ''Jan 2020 - Jan 2027''),
    (''Venus Mahadasha'', ''Jan 2027 - Jan 2047''),
    (''Sun Mahadasha'', ''Jan 2047 - Jan 2053'')]"
  by (simp add: dashas_def)

lemma summary_literal:
  "[planet (planets ! 0), sign (planets ! 0), nat_digits (house (planets ! 0)),
    planet (planets ! 1), sign (planets ! 1), nat_digits (house (planets ! 1)),
    h_sign (houses ! 0)] =
   [''Sun'', ''Aries'', ''1'', ''Moon'', ''Taurus'', ''2'', ''Aries'']"
  by code_simp

lemma cells_literal:
  "map (\<lambda>i. join '', '' (h_planets (houses ! i))) [0, 1, 11, 2, 10, 9, 3] =
   [''Sun'', ''Moon'', ''Mercury, Ketu'', [], ''Venus'', ''Mars'', []]"
  by code_simp

lemma planetaryData_literal:
  "map (\<lambda>p. (planet p, sign p, degree p, house p,
              if retrograde p then ''Retrograde'' else ''Direct'')) planetaryData =
   [(''Sun'', ''Taurus'', deg ''15'' ''42'', 1, ''Direct''),
    (''Moon'', ''Pisces'', deg ''28'' ''17'', 11, ''Direct''),
    (''Mars'', ''Capricorn'', deg ''09'' ''03'', 9, ''Direct''),
    (''Mercury'', ''Taurus'', deg ''20'' ''58'', 1, ''Direct''),
    (''Jupiter'', ''Scorpio'', deg ''07'' ''16'', 7, ''Retrograde''),
    (''Venus'', ''Gemini'', deg ''02'' ''34'', 2, ''Direct''),
    (''Saturn'', ''Capricorn'', deg ''24'' ''51'', 9, ''Retrograde''),
    (''Rahu'', ''Cancer'', deg ''06'' ''10'', 3, ''Retrograde''),
    (''Ketu'', ''Capricorn'', deg ''06'' ''10'', 9, ''Retrograde'')]"
  by (simp add: planetaryData_def)

lemma house_numbers_without_data:
  "filter (\<lambda>num. \<not> list_ex (\<lambda>h. hd_house h = num) houseData) (map (\<lambda>i. i + 1) [0..<12]) =
   [4, 5, 6, 7, 8, 9, 10, 11, 12]"
  by code_simp

lemma ResultsPage_loaded_tabs:
  "birthchart_tab (ResultsPage_loaded parse storage st) = BirthChart False \<and>
   planets_tab (ResultsPage_loaded parse storage st) = PlanetaryPositions False \<and>
   houses_tab (ResultsPage_loaded parse storage st) = HouseInterpretations False \<and>
   dashas_tab (ResultsPage_loaded parse storage st) = DashaPredictions False"
  by (simp add: ResultsPage_loaded_def ResultsPage_def ResultsPage_timer_loaded)

lemma BirthChart_loaded:
  "svg_texts (BirthChart False) = Content
     [(110, 110, ''1''), (290, 110, ''2''), (290, 290, ''3''), (110, 290, ''4''),
      (60, 140, ''12''), (260, 140, ''11''), (260, 260, ''10''), (60, 260, ''9''),
      (140, 60, ''5''), (340, 60, ''6''), (340, 340, ''7''), (140, 340, ''8''),
      (200, 200, ''Rasi Chart''),
      (105, 90, ''Su''), (305, 120, ''Mo''), (270, 280, ''Ma''), (90, 270, ''Me''),
      (50, 150, ''Ju''), (250, 130, ''Ve''), (250, 240, ''Sa''), (70, 250, ''Ra''),
      (160, 70, ''Ke'')] \<and>
   chart_information (BirthChart False) = Content
     [(''Ascendant (Lagna)'', ''Taurus''), (''Moon Sign (Rashi)'', ''Pisces''),
      (''Nakshatra (Lunar Mansion)'', ''Revati''), (''Ayanamsa Used'', ''Lahiri'')]"
  by (simp add: BirthChart_def card_def)

lemma PlanetaryPositions_loaded:
  "positions (PlanetaryPositions False) = Content
     (map (\<lambda>p. (planet p, sign p, degree p, house p,
                 if retrograde p then ''Retrograde'' else ''Direct'')) planetaryData) \<and>
   influences (PlanetaryPositions False) = Content
     [''Saturn in 9th House'', ''Moon in Pisces'', ''Jupiter Retrograde''] \<and>
   aspects (PlanetaryPositions False) = Content
     [''Sun conjunct Mercury'', ''Mars square Jupiter'', ''Ketu conjunct Saturn'']"
  by (simp add: PlanetaryPositions_def card_def)

lemma HouseInterpretations_loaded:
  "(\<exists>tabs. interpretations (HouseInterpretations False) = Content tabs \<and>
      house_triggers tabs =
        [(''house1'', ''House 1''), (''house2'', ''House 2''), (''house3'', ''House 3''),
         (''house4'', ''House 4''), (''house5'', ''House 5''), (''house6'', ''House 6''),
         (''house7'', ''House 7''), (''house8'', ''House 8''), (''house9'', ''House 9''),
         (''house10'', ''House 10''), (''house11'', ''House 11''),
         (''house12'', ''House 12'')] \<and>
      map (\<lambda>t. (ht_value t, ht_title t, ht_sign_lord t, ht_planets t)) (house_contents tabs) =
        [(''house1'', ''First House (Ascendant/Lagna)'', ''Sign: Taurus | Lord: Venus'',
          Some ''Sun, Mercury''),
         (''house2'', ''Second House'', ''Sign: Gemini | Lord: Mercury'', Some ''Venus''),
         (''house3'', ''Third House'', ''Sign: Cancer | Lord: Moon'', Some ''Rahu'')] \<and>
      map ht_lifeAreas (house_contents tabs) = map hd_lifeAreas houseData \<and>
      map ht_interpretation (house_contents tabs) = map hd_interpretation houseData \<and>
      house_placeholders tabs =
        map (\<lambda>n. (''house'' @ nat_digits n,
                   ''Detailed interpretation for House '' @ nat_digits n @
                   '' would appear here in the complete implementation.''))
          [4, 5, 6, 7, 8, 9, 10, 11, 12] \<and>
      map fst (house_placeholders tabs) =
        [''house4'', ''house5'', ''house6'', ''house7'', ''house8'', ''house9'', ''house10'',
         ''house11'', ''house12'']) \<and>
   strengths (HouseInterpretations False) = Content [''Strong 1st House'', ''Venus in 2nd House''] \<and>
   growth (HouseInterpretations False) = Content [''Rahu in 3rd House'', ''Empty 7th House'']"
proof -
  let ?tabs = "\<lparr>house_triggers =
           map (\<lambda>i. (''house'' @ nat_digits (i + 1), ''House '' @ nat_digits (i + 1))) [0..<12],
         house_contents =
           map (\<lambda>h. \<lparr>ht_value = ''house'' @ nat_digits (hd_house h),
                      ht_title = hd_title h,
                      ht_sign_lord = ''Sign: '' @ hd_sign h @ '' | Lord: '' @ hd_lord h,
                      ht_planets = (if length (hd_planets h) > 0
                                    then Some (join '', '' (hd_planets h)) else None),
                      ht_lifeAreas = hd_lifeAreas h,
                      ht_interpretation = hd_interpretation h\<rparr>) houseData,
         house_placeholders =
           map (\<lambda>houseNum. (''house'' @ nat_digits houseNum,
                  ''Detailed interpretation for House '' @ nat_digits houseNum @
                  '' would appear here in the complete implementation.''))
               (filter (\<lambda>num. \<not> list_ex (\<lambda>h. hd_house h = num) houseData)
                  (map (\<lambda>i. i + 1) [0..<12]))\<rparr>"
  have c: "interpretations (HouseInterpretations False) = Content ?tabs"
    by (simp add: HouseInterpretations_def card_def)
  have t: "house_triggers ?tabs =
        [(''house1'', ''House 1''), (''house2'', ''House 2''), (''house3'', ''House 3''),
         (''house4'', ''House 4''), (''house5'', ''House 5''), (''house6'', ''House 6''),
         (''house7'', ''House 7''), (''house8'', ''House 8''), (''house9'', ''House 9''),
         (''house10'', ''House 10''), (''house11'', ''House 11''),
         (''house12'', ''House 12'')]"
    by code_simp
  have s: "map (\<lambda>t. (ht_value t, ht_title t, ht_sign_lord t, ht_planets t)) (house_contents ?tabs) =
        [(''house1'', ''First House (Ascendant/Lagna)'', ''Sign: Taurus | Lord: Venus'',
          Some ''Sun, Mercury''),
         (''house2'', ''Second House'', ''Sign: Gemini | Lord: Mercury'', Some ''Venus''),
         (''house3'', ''Third House'', ''Sign: Cancer | Lord: Moon'', Some ''Rahu'')]"
    by code_simp
  have l: "map ht_lifeAreas (house_contents ?tabs) = map hd_lifeAreas houseData"
    "map ht_interpretation (house_contents ?tabs) = map hd_interpretation houseData"
    by (simp_all add: o_def)
  have p: "house_placeholders ?tabs =
        map (\<lambda>n. (''house'' @ nat_digits n,
                   ''Detailed interpretation for House '' @ nat_digits n @
                   '' would appear here in the complete implementation.''))
          [4, 5, 6, 7, 8, 9, 10, 11, 12]"
    by (simp only: house_tabs.simps house_numbers_without_data)
  have f: "map fst (house_placeholders ?tabs) =
        [''house4'', ''house5'', ''house6'', ''house7'', ''house8'', ''house9'', ''house10'',
         ''house11'', ''house12'']"
    by code_simp
  have r: "strengths (HouseInterpretations False) = Content [''Strong 1st House'', ''Venus in 2nd House'']"
    "growth (HouseInterpretations False) = Content [''Rahu in 3rd House'', ''Empty 7th House'']"
    by (simp_all add: HouseInterpretations_def card_def)
  show ?thesis
    by (intro conjI exI[of _ ?tabs]) (rule c t s l p f r)+
qed

lemma DashaPredictions_loaded:
  "(\<exists>tabs. predictions (DashaPredictions False) = Content tabs \<and>
      dasha_triggers tabs = [(''venus'', ''Venus Dasha''), (''sun'', ''Sun Dasha'')] \<and>
      map (\<lambda>t. (dt_value t, dt_heading t, map fst (dt_subperiods t))) (dasha_contents tabs) =
        [(''venus'', ''Venus Mahadasha (Apr 2022 - Apr 2042)'',
          [''Venus-Venus (Apr 2022 - Oct 2025)'', ''Venus-Sun (Oct 2025 - Oct 2026)'',
           ''Venus-Moon (Oct 2026 - Jun 2028)'']),
         (''sun'', ''Sun Mahadasha (Apr 2042 - Apr 2048)'',
          [''Sun-Sun (Apr 2042 - Aug 2042)'', ''Sun-Moon (Aug 2042 - Feb 2043)'',
           ''Sun-Mars (Feb 2043 - Jun 2043)''])] \<and>
      map dt_prediction (dasha_contents tabs) = map dd_prediction dashaData \<and>
      map (\<lambda>t. map snd (dt_subperiods t)) (dasha_contents tabs) =
        map (\<lambda>d. map sp_prediction (dd_subperiods d)) dashaData) \<and>
   current_influences (DashaPredictions False) = Content
     (''Venus-Venus (Apr 2022 - Oct 2025)'',
      [''Developing artistic talents and creative pursuits'',
       ''Building harmonious relationships and partnerships'',
       ''Enhancing your surroundings and creating beauty'',
       ''Finding pleasure and joy in sensory experiences'']) \<and>
   upcoming_transitions (DashaPredictions False) = Content
     (''Venus-Sun (Oct 2025 - Oct 2026)'',
      [''Increased visibility and recognition for creative work'',
       ''Greater focus on self-expression within relationships'',
       ''Potential leadership roles in artistic or social contexts'',
       ''Finding balance between ego and harmony''])"
proof -
  let ?tabs = "\<lparr>dasha_triggers =
           map (\<lambda>d. (toLowerCase (dd_planet d), dd_planet d @ '' Dasha'')) dashaData,
         dasha_contents =
           map (\<lambda>d. \<lparr>dt_value = toLowerCase (dd_planet d),
                      dt_heading = dd_planet d @ '' Mahadasha ('' @ dd_period d @ '')'',
                      dt_prediction = dd_prediction d,
                      dt_subperiods =
                        map (\<lambda>s. (sp_title s @ '' ('' @ sp_period s @ '')'', sp_prediction s))
                          (dd_subperiods d)\<rparr>) dashaData\<rparr>"
  have c: "predictions (DashaPredictions False) = Content ?tabs"
    by (simp add: DashaPredictions_def card_def)
  have t: "dasha_triggers ?tabs = [(''venus'', ''Venus Dasha''), (''sun'', ''Sun Dasha'')]"
    by code_simp
  have s: "map (\<lambda>t. (dt_value t, dt_heading t, map fst (dt_subperiods t))) (dasha_contents ?tabs) =
        [(''venus'', ''Venus Mahadasha (Apr 2022 - Apr 2042)'',
          [''Venus-Venus (Apr 2022 - Oct 2025)'', ''Venus-Sun (Oct 2025 - Oct 2026)'',
           ''Venus-Moon (Oct 2026 - Jun 2028)'']),
         (''sun'', ''Sun Mahadasha (Apr 2042 - Apr 2048)'',
          [''Sun-Sun (Apr 2042 - Aug 2042)'', ''Sun-Moon (Aug 2042 - Feb 2043)'',
           ''Sun-Mars (Feb 2043 - Jun 2043)''])]"
    by code_simp
  have l: "map dt_prediction (dasha_contents ?tabs) = map dd_prediction dashaData"
    "map (\<lambda>t. map snd (dt_subperiods t)) (dasha_contents ?tabs) =
        map (\<lambda>d. map sp_prediction (dd_subperiods d)) dashaData"
    by (simp_all add: o_def)
  have r: "current_influences (DashaPredictions False) = Content
     (''Venus-Venus (Apr 2022 - Oct 2025)'',
      [''Developing artistic talents and creative pursuits'',
       ''Building harmonious relationships and partnerships'',
       ''Enhancing your surroundings and creating beauty'',
       ''Finding pleasure and joy in sensory experiences''])"
    "upcoming_transitions (DashaPredictions False) = Content
     (''Venus-Sun (Oct 2025 - Oct 2026)'',
      [''Increased visibility and recognition for creative work'',
       ''Greater focus on self-expression within relationships'',
       ''Potential leadership roles in artistic or social contexts'',
       ''Finding balance between ego and harmony''])"
    by (simp_all add: DashaPredictions_def card_def)
  show ?thesis
    by (intro conjI exI[of _ ?tabs]) (rule c t s l r)+
qed

lemma KundaliResults_tables:
  assumes "KundaliResults fmt props = Inr v"
  shows "planets_table v =
        map (\<lambda>p. (planet p, sign p, house p, degree p,
                   if retrograde p then ''Retrograde'' else ''Direct'')) planets \<and>
      planets_table v =
        [(''Sun'', ''Aries'', 1, deg ''15'' ''23'', ''Direct''),
         (''Moon'', ''Taurus'', 2, deg ''8'' ''45'', ''Direct''),
         (''Mercury'', ''Pisces'', 12, deg ''2'' ''18'', ''Retrograde''),
         (''Venus'', ''Aquarius'', 11, deg ''25'' ''07'', ''Direct''),
         (''Mars'', ''Capricorn'', 10, deg ''19'' ''34'', ''Direct''),
         (''Jupiter'', ''Leo'', 5, deg ''11'' ''42'', ''Direct''),
         (''Saturn'', ''Scorpio'', 8, deg ''28'' ''56'', ''Retrograde''),
         (''Rahu'', ''Virgo'', 6, deg ''3'' ''12'', ''Direct''),
         (''Ketu'', ''Pisces'', 12, deg ''3'' ''12'', ''Direct'')] \<and>
      houses_table v =
        map (\<lambda>h. (h_house h, h_sign h,
                   if length (h_planets h) \<noteq> 0 then join '', '' (h_planets h) else ''-''))
          houses \<and>
      houses_table v =
        [(1, ''Aries'', ''Sun''), (2, ''Taurus'', ''Moon''), (3, ''Gemini'', ''-''),
         (4, ''Cancer'', ''-''), (5, ''Leo'', ''Jupiter''), (6, ''Virgo'', ''Rahu''),
         (7, ''Libra'', ''-''), (8, ''Scorpio'', ''Saturn''), (9, ''Sagittarius'', ''-''),
         (10, ''Capricorn'', ''Mars''), (11, ''Aquarius'', ''Venus''),
         (12, ''Pisces'', ''Mercury, Ketu'')] \<and>
      dasha_items v =
        map (\<lambda>d. (period d, startDate d @ '' - '' @ endDate d, description d)) dashas \<and>
      map (\<lambda>i. (fst i, fst (snd i))) (dasha_items v) =
        [(''Ketu Mahadasha'', ''Jan 2020 - Jan 2027''),
         (''Venus Mahadasha'', ''Jan 2027 - Jan 2047''),
         (''Sun Mahadasha'', ''Jan 2047 - Jan 2053'')] \<and>
      summary v = [''Sun'', ''Aries'', ''1'', ''Moon'', ''Taurus'', ''2'', ''Aries''] \<and>
      chart v =
        (if truthy (get_prop props ''showChart'')
         then Inr \<lparr>cells = [''Sun'', ''Moon'', ''Mercury, Ketu'', [], ''Venus'', ''Mars'', []],
                   centre = get_prop props ''name''\<rparr>
         else Inl (get_prop props ''showChart''))"
proof -
  from KundaliResults_Inr[OF assms] obtain d where v: "v = KundaliResults_jsx props d" by blast
  have p: "planets_table v =
        map (\<lambda>p. (planet p, sign p, house p, degree p,
                   if retrograde p then ''Retrograde'' else ''Direct'')) planets"
    and h: "houses_table v =
        map (\<lambda>h. (h_house h, h_sign h,
                   if length (h_planets h) \<noteq> 0 then join '', '' (h_planets h) else ''-''))
          houses"
    and i: "dasha_items v =
        map (\<lambda>d. (period d, startDate d @ '' - '' @ endDate d, description d)) dashas"
    and s: "summary v =
        [planet (planets ! 0), sign (planets ! 0), nat_digits (house (planets ! 0)),
         planet (planets ! 1), sign (planets ! 1), nat_digits (house (planets ! 1)),
         h_sign (houses ! 0)]"
    and c: "chart v =
        (if truthy (get_prop props ''showChart'')
         then Inr \<lparr>cells = map (\<lambda>i. join '', '' (h_planets (houses ! i)))
                             [0, 1, 11, 2, 10, 9, 3],
                   centre = get_prop props ''name''\<rparr>
         else Inl (get_prop props ''showChart''))"
    unfolding v KundaliResults_jsx_def by (rule kundali_view.simps)+
  have j: "map (\<lambda>i. (fst i, fst (snd i))) (dasha_items v) =
        map (\<lambda>x. (period x, startDate x @ '' - '' @ endDate x)) dashas"
    unfolding i by (simp add: o_def)
  show ?thesis
    unfolding j dashas_literal
    unfolding p h i s c planets_literal houses_literal summary_literal cells_literal
    by (intro conjI refl planets_literal houses_literal)
qed

lemma KundaliResults_same:
  assumes "KundaliResults fmt props = Inr v \<and> KundaliResults fmt' props' = Inr v'"
  shows "planets_table v = planets_table v' \<and> houses_table v = houses_table v' \<and>
      dasha_items v = dasha_items v' \<and> summary v = summary v' \<and>
      (\<forall>c c'. chart v = Inr c \<and> chart v' = Inr c' \<longrightarrow> cells c = cells c')"
proof -
  from assms KundaliResults_Inr[of fmt props v] KundaliResults_Inr[of fmt' props' v']
  obtain d d' where v: "v = KundaliResults_jsx props d" "v' = KundaliResults_jsx props' d'"
    by blast
  show ?thesis
    unfolding v by (auto simp: KundaliResults_jsx_def split: if_splits)
qed

text \<open>
  Claim C8. The astrological content of the results does not depend on the input.
  \<^verbatim>\<open>KundaliResults\<close>, for whatever form data it renders: the planets table, the houses table and
  the Dasha items are the rows of \<open>planets\<close>, \<open>houses\<close> and \<open>dashas\<close>, spelt out here; the
  summary is made of their first entries; the chart card holds seven cells of \<open>houses\<close>
  around the name, and is shown exactly when \<^verbatim>\<open>showChart\<close> is truthy. So two inputs give the
  same tables and summary, and the same cells whenever both show the chart; and it renders
  whenever the date is a \<^verbatim>\<open>Date\<close> or \<^verbatim>\<open>undefined\<close>. The results page, once loaded, whatever
  local storage holds: the birth chart is its literal texts, the planets tab the rows of
  \<open>planetaryData\<close>, the houses tab the entries of \<open>houseData\<close> with a placeholder for each of
  the houses 4 to 12, the Dasha tab the entries of \<open>dashaData\<close>, and the prose cards their
  literals; so two local storages give the same four tabs. The fixtures are constants of
  this theory: no state of the model holds them and no operation returns them changed.
\<close>

theorem results_are_fixtures:
  "(KundaliResults fmt props = Inr v \<longrightarrow>
      planets_table v =
        map (\<lambda>p. (planet p, sign p, house p, degree p,
                   if retrograde p then ''Retrograde'' else ''Direct'')) planets \<and>
      planets_table v =
        [(''Sun'', ''Aries'', 1, deg ''15'' ''23'', ''Direct''),
         (''Moon'', ''Taurus'', 2, deg ''8'' ''45'', ''Direct''),
         (''Mercury'', ''Pisces'', 12, deg ''2'' ''18'', ''Retrograde''),
         (''Venus'', ''Aquarius'', 11, deg ''25'' ''07'', ''Direct''),
         (''Mars'', ''Capricorn'', 10, deg ''19'' ''34'', ''Direct''),
         (''Jupiter'', ''Leo'', 5, deg ''11'' ''42'', ''Direct''),
         (''Saturn'', ''Scorpio'', 8, deg ''28'' ''56'', ''Retrograde''),
         (''Rahu'', ''Virgo'', 6, deg ''3'' ''12'', ''Direct''),
         (''Ketu'', ''Pisces'', 12, deg ''3'' ''12'', ''Direct'')] \<and>
      houses_table v =
        map (\<lambda>h. (h_house h, h_sign h,
                   if length (h_planets h) \<noteq> 0 then join '', '' (h_planets h) else ''-''))
          houses \<and>
      houses_table v =
        [(1, ''Aries'', ''Sun''), (2, ''Taurus'', ''Moon''), (3, ''Gemini'', ''-''),
         (4, ''Cancer'', ''-''), (5, ''Leo'', ''Jupiter''), (6, ''Virgo'', ''Rahu''),
         (7, ''Libra'', ''-''), (8, ''Scorpio'', ''Saturn''), (9, ''Sagittarius'', ''-''),
         (10, ''Capricorn'', ''Mars''), (11, ''Aquarius'', ''Venus''),
         (12, ''Pisces'', ''Mercury, Ketu'')] \<and>
      dasha_items v =
        map (\<lambda>d. (period d, startDate d @ '' - '' @ endDate d, description d)) dashas \<and>
      map (\<lambda>i. (fst i, fst (snd i))) (dasha_items v) =
        [(''Ketu Mahadasha'', ''Jan 2020 - Jan 2027''),
         (''Venus Mahadasha'', ''Jan 2027 - Jan 2047''),
         (''Sun Mahadasha'', ''Jan 2047 - Jan 2053'')] \<and>
      summary v = [''Sun'', ''Aries'', ''1'', ''Moon'', ''Taurus'', ''2'', ''Aries''] \<and>
      chart v =
        (if truthy (get_prop props ''showChart'')
         then Inr \<lparr>cells = [''Sun'', ''Moon'', ''Mercury, Ketu'', [], ''Venus'', ''Mars'', []],
                   centre = get_prop props ''name''\<rparr>
         else Inl (get_prop props ''showChart''))) \<and>
   (KundaliResults fmt props = Inr v \<and> KundaliResults fmt' props' = Inr v' \<longrightarrow>
      planets_table v = planets_table v' \<and> houses_table v = houses_table v' \<and>
      dasha_items v = dasha_items v' \<and> summary v = summary v' \<and>
      (\<forall>c c'. chart v = Inr c \<and> chart v' = Inr c' \<longrightarrow> cells c = cells c')) \<and>
   (is_date_or_undefined (get_prop props ''date'') \<longrightarrow> (\<exists>w. KundaliResults fmt props = Inr w)) \<and>
   svg_texts (birthchart_tab (ResultsPage_loaded parse storage st)) = Content
     [(110, 110, ''1''), (290, 110, ''2''), (290, 290, ''3''), (110, 290, ''4''),
      (60, 140, ''12''), (260, 140, ''11''), (260, 260, ''10''), (60, 260, ''9''),
      (140, 60, ''5''), (340, 60, ''6''), (340, 340, ''7''), (140, 340, ''8''),
      (200, 200, ''Rasi Chart''),
      (105, 90, ''Su''), (305, 120, ''Mo''), (270, 280, ''Ma''), (90, 270, ''Me''),
      (50, 150, ''Ju''), (250, 130, ''Ve''), (250, 240, ''Sa''), (70, 250, ''Ra''),
      (160, 70, ''Ke'')] \<and>
   chart_information (birthchart_tab (ResultsPage_loaded parse storage st)) = Content
     [(''Ascendant (Lagna)'', ''Taurus''), (''Moon Sign (Rashi)'', ''Pisces''),
      (''Nakshatra (Lunar Mansion)'', ''Revati''), (''Ayanamsa Used'', ''Lahiri'')] \<and>
   positions (planets_tab (ResultsPage_loaded parse storage st)) = Content
     (map (\<lambda>p. (planet p, sign p, degree p, house p,
                 if retrograde p then ''Retrograde'' else ''Direct'')) planetaryData) \<and>
   positions (planets_tab (ResultsPage_loaded parse storage st)) = Content
     [(''Sun'', ''Taurus'', deg ''15'' ''42'', 1, ''Direct''),
      (''Moon'', ''Pisces'', deg ''28'' ''17'', 11, ''Direct''),
      (''Mars'', ''Capricorn'', deg ''09'' ''03'', 9, ''Direct''),
      (''Mercury'', ''Taurus'', deg ''20'' ''58'', 1, ''Direct''),
      (''Jupiter'', ''Scorpio'', deg ''07'' ''16'', 7, ''Retrograde''),
      (''Venus'', ''Gemini'', deg ''02'' ''34'', 2, ''Direct''),
      (''Saturn'', ''Capricorn'', deg ''24'' ''51'', 9, ''Retrograde''),
      (''Rahu'', ''Cancer'', deg ''06'' ''10'', 3, ''Retrograde''),
      (''Ketu'', ''Capricorn'', deg ''06'' ''10'', 9, ''Retrograde'')] \<and>
   influences (planets_tab (ResultsPage_loaded parse storage st)) = Content
     [''Saturn in 9th House'', ''Moon in Pisces'', ''Jupiter Retrograde''] \<and>
   aspects (planets_tab (ResultsPage_loaded parse storage st)) = Content
     [''Sun conjunct Mercury'', ''Mars square Jupiter'', ''Ketu conjunct Saturn''] \<and>
   (\<exists>tabs. interpretations (houses_tab (ResultsPage_loaded parse storage st)) = Content tabs \<and>
      house_triggers tabs =
        [(''house1'', ''House 1''), (''house2'', ''House 2''), (''house3'', ''House 3''),
         (''house4'', ''House 4''), (''house5'', ''House 5''), (''house6'', ''House 6''),
         (''house7'', ''House 7''), (''house8'', ''House 8''), (''house9'', ''House 9''),
         (''house10'', ''House 10''), (''house11'', ''House 11''),
         (''house12'', ''House 12'')] \<and>
      map (\<lambda>t. (ht_value t, ht_title t, ht_sign_lord t, ht_planets t)) (house_contents tabs) =
        [(''house1'', ''First House (Ascendant/Lagna)'', ''Sign: Taurus | Lord: Venus'',
          Some ''Sun, Mercury''),
         (''house2'', ''Second House'', ''Sign: Gemini | Lord: Mercury'', Some ''Venus''),
         (''house3'', ''Third House'', ''Sign: Cancer | Lord: Moon'', Some ''Rahu'')] \<and>
      map ht_lifeAreas (house_contents tabs) = map hd_lifeAreas houseData \<and>
      map ht_interpretation (house_contents tabs) = map hd_interpretation houseData \<and>
      house_placeholders tabs =
        map (\<lambda>n. (''house'' @ nat_digits n,
                   ''Detailed interpretation for House '' @ nat_digits n @
                   '' would appear here in the complete implementation.''))
          [4, 5, 6, 7, 8, 9, 10, 11, 12] \<and>
      map fst (house_placeholders tabs) =
        [''house4'', ''house5'', ''house6'', ''house7'', ''house8'', ''house9'', ''house10'',
         ''house11'', ''house12'']) \<and>
   strengths (houses_tab (ResultsPage_loaded parse storage st)) =
     Content [''Strong 1st House'', ''Venus in 2nd House''] \<and>
   growth (houses_tab (ResultsPage_loaded parse storage st)) =
     Content [''Rahu in 3rd House'', ''Empty 7th House''] \<and>
   (\<exists>tabs. predictions (dashas_tab (ResultsPage_loaded parse storage st)) = Content tabs \<and>
      dasha_triggers tabs = [(''venus'', ''Venus Dasha''), (''sun'', ''Sun Dasha'')] \<and>
      map (\<lambda>t. (dt_value t, dt_heading t, map fst (dt_subperiods t))) (dasha_contents tabs) =
        [(''venus'', ''Venus Mahadasha (Apr 2022 - Apr 2042)'',
          [''Venus-Venus (Apr 2022 - Oct 2025)'', ''Venus-Sun (Oct 2025 - Oct 2026)'',
           ''Venus-Moon (Oct 2026 - Jun 2028)'']),
         (''sun'', ''Sun Mahadasha (Apr 2042 - Apr 2048)'',
          [''Sun-Sun (Apr 2042 - Aug 2042)'', ''Sun-Moon (Aug 2042 - Feb 2043)'',
           ''Sun-Mars (Feb 2043 - Jun 2043)''])] \<and>
      map dt_prediction (dasha_contents tabs) = map dd_prediction dashaData \<and>
      map (\<lambda>t. map snd (dt_subperiods t)) (dasha_contents tabs) =
        map (\<lambda>d. map sp_prediction (dd_subperiods d)) dashaData) \<and>
   current_influences (dashas_tab (ResultsPage_loaded parse storage st)) = Content
     (''Venus-Venus (Apr 2022 - Oct 2025)'',
      [''Developing artistic talents and creative pursuits'',
       ''Building harmonious relationships and partnerships'',
       ''Enhancing your surroundings and creating beauty'',
       ''Finding pleasure and joy in sensory experiences'']) \<and>
   upcoming_transitions (dashas_tab (ResultsPage_loaded parse storage st)) = Content
     (''Venus-Sun (Oct 2025 - Oct 2026)'',
      [''Increased visibility and recognition for creative work'',
       ''Greater focus on self-expression within relationships'',
       ''Potential leadership roles in artistic or social contexts'',
       ''Finding balance between ego and harmony'']) \<and>
   birthchart_tab (ResultsPage_loaded parse storage st) =
     birthchart_tab (ResultsPage_loaded parse' storage' st') \<and>
   planets_tab (ResultsPage_loaded parse storage st) =
     planets_tab (ResultsPage_loaded parse' storage' st') \<and>
   houses_tab (ResultsPage_loaded parse storage st) =
     houses_tab (ResultsPage_loaded parse' storage' st') \<and>
   dashas_tab (ResultsPage_loaded parse storage st) =
     dashas_tab (ResultsPage_loaded parse' storage' st')"
proof -
  note r = ResultsPage_loaded_tabs[of parse storage st]
  note r' = ResultsPage_loaded_tabs[of parse' storage' st']
  note bc = BirthChart_loaded[THEN conjunct1]
  note bi = BirthChart_loaded[THEN conjunct2]
  note pp = PlanetaryPositions_loaded[THEN conjunct1]
  note pl = PlanetaryPositions_loaded[THEN conjunct1, unfolded planetaryData_literal]
  note pi = PlanetaryPositions_loaded[THEN conjunct2, THEN conjunct1]
  note pa = PlanetaryPositions_loaded[THEN conjunct2, THEN conjunct2]
  note hi = HouseInterpretations_loaded[THEN conjunct1]
  note hs = HouseInterpretations_loaded[THEN conjunct2, THEN conjunct1]
  note hg = HouseInterpretations_loaded[THEN conjunct2, THEN conjunct2]
  note dp = DashaPredictions_loaded[THEN conjunct1]
  note dc = DashaPredictions_loaded[THEN conjunct2, THEN conjunct1]
  note du = DashaPredictions_loaded[THEN conjunct2, THEN conjunct2]
  show ?thesis
    unfolding r[THEN conjunct1] r[THEN conjunct2, THEN conjunct1]
      r[THEN conjunct2, THEN conjunct2, THEN conjunct1]
      r[THEN conjunct2, THEN conjunct2, THEN conjunct2]
      r'[THEN conjunct1] r'[THEN conjunct2, THEN conjunct1]
      r'[THEN conjunct2, THEN conjunct2, THEN conjunct1]
      r'[THEN conjunct2, THEN conjunct2, THEN conjunct2]
    apply (intro conjI)
                      apply (rule impI, erule KundaliResults_tables)
                      apply (rule impI, erule KundaliResults_same)
                      apply (rule impI, erule KundaliResults_total)
                      apply (rule bc)
                      apply (rule bi)
                      apply (rule pp)
                      apply (rule pl)
                      apply (rule pi)
                      apply (rule pa)
                      apply (rule hi)
                      apply (rule hs)
                      apply (rule hg)
                      apply (rule dp)
                      apply (rule dc)
                      apply (rule du)
                      apply (rule refl)+
    done
qed

theorem results_are_fixtures_witness:
  "KundaliResults (\<lambda>t. ''1/1/1970'') sample_props = Inr (KundaliResults_jsx sample_props (Str ''1/1/1970'')) \<and>
   KundaliResults (\<lambda>t. ''1/1/1970'') ravi_props = Inr (KundaliResults_jsx ravi_props (Str ''Not specified'')) \<and>
   birthDate_text (KundaliResults_jsx sample_props (Str ''1/1/1970'')) = Str ''1/1/1970'' \<and>
   birthDate_text (KundaliResults_jsx ravi_props (Str ''Not specified'')) = Str ''Not specified'' \<and>
   chart (KundaliResults_jsx sample_props (Str ''1/1/1970'')) =
     Inr \<lparr>cells = [''Sun'', ''Moon'', ''Mercury, Ketu'', [], ''Venus'', ''Mars'', []], centre = Str ''Asha''\<rparr> \<and>
   chart (KundaliResults_jsx ravi_props (Str ''Not specified'')) =
     Inr \<lparr>cells = [''Sun'', ''Moon'', ''Mercury, Ketu'', [], ''Venus'', ''Mars'', []], centre = Str ''Ravi''\<rparr> \<and>
   houses_table (KundaliResults_jsx sample_props (Str ''1/1/1970'')) =
     [(1, ''Aries'', ''Sun''), (2, ''Taurus'', ''Moon''), (3, ''Gemini'', ''-''),
      (4, ''Cancer'', ''-''), (5, ''Leo'', ''Jupiter''), (6, ''Virgo'', ''Rahu''),
      (7, ''Libra'', ''-''), (8, ''Scorpio'', ''Saturn''), (9, ''Sagittarius'', ''-''),
      (10, ''Capricorn'', ''Mars''), (11, ''Aquarius'', ''Venus''),
      (12, ''Pisces'', ''Mercury, Ketu'')] \<and>
   planets_table (KundaliResults_jsx sample_props (Str ''1/1/1970'')) =
     planets_table (KundaliResults_jsx ravi_props (Str ''Not specified'')) \<and>
   houses_table (KundaliResults_jsx sample_props (Str ''1/1/1970'')) =
     houses_table (KundaliResults_jsx ravi_props (Str ''Not specified'')) \<and>
   dasha_items (KundaliResults_jsx sample_props (Str ''1/1/1970'')) =
     dasha_items (KundaliResults_jsx ravi_props (Str ''Not specified'')) \<and>
   summary (KundaliResults_jsx sample_props (Str ''1/1/1970'')) =
     summary (KundaliResults_jsx ravi_props (Str ''Not specified'')) \<and>
   (\<exists>w. KundaliResults (\<lambda>t. ''1/1/1970'') Map.empty = Inr w \<and> chart w = Inl Undefined \<and>
      houses_table w =
     [(1, ''Aries'', ''Sun''), (2, ''Taurus'', ''Moon''), (3, ''Gemini'', ''-''),
      (4, ''Cancer'', ''-''), (5, ''Leo'', ''Jupiter''), (6, ''Virgo'', ''Rahu''),
      (7, ''Libra'', ''-''), (8, ''Scorpio'', ''Saturn''), (9, ''Sagittarius'', ''-''),
      (10, ''Capricorn'', ''Mars''), (11, ''Aquarius'', ''Venus''),
      (12, ''Pisces'', ''Mercury, Ketu'')]) \<and>
   heading (ResultsPage_loaded sample_parse [''kundaliFormData'' \<mapsto> ''{Asha''] ResultsPage_initial) =
     Content (Str ''Asha'') \<and>
   heading (ResultsPage_loaded sample_parse Map.empty ResultsPage_initial) = Content (Str ''User'') \<and>
   positions (planets_tab (ResultsPage_loaded sample_parse [''kundaliFormData'' \<mapsto> ''{Asha''] ResultsPage_initial)) =
     Content
     [(''Sun'', ''Taurus'', deg ''15'' ''42'', 1, ''Direct''),
      (''Moon'', ''Pisces'', deg ''28'' ''17'', 11, ''Direct''),
      (''Mars'', ''Capricorn'', deg ''09'' ''03'', 9, ''Direct''),
      (''Mercury'', ''Taurus'', deg ''20'' ''58'', 1, ''Direct''),
      (''Jupiter'', ''Scorpio'', deg ''07'' ''16'', 7, ''Retrograde''),
      (''Venus'', ''Gemini'', deg ''02'' ''34'', 2, ''Direct''),
      (''Saturn'', ''Capricorn'', deg ''24'' ''51'', 9, ''Retrograde''),
      (''Rahu'', ''Cancer'', deg ''06'' ''10'', 3, ''Retrograde''),
      (''Ketu'', ''Capricorn'', deg ''06'' ''10'', 9, ''Retrograde'')] \<and>
   birthchart_tab (ResultsPage_loaded sample_parse [''kundaliFormData'' \<mapsto> ''{Asha''] ResultsPage_initial) =
     birthchart_tab (ResultsPage_loaded sample_parse Map.empty ResultsPage_initial) \<and>
   planets_tab (ResultsPage_loaded sample_parse [''kundaliFormData'' \<mapsto> ''{Asha''] ResultsPage_initial) =
     planets_tab (ResultsPage_loaded sample_parse Map.empty ResultsPage_initial) \<and>
   houses_tab (ResultsPage_loaded sample_parse [''kundaliFormData'' \<mapsto> ''{Asha''] ResultsPage_initial) =
     houses_tab (ResultsPage_loaded sample_parse Map.empty ResultsPage_initial) \<and>
   dashas_tab (ResultsPage_loaded sample_parse [''kundaliFormData'' \<mapsto> ''{Asha''] ResultsPage_initial) =
     dashas_tab (ResultsPage_loaded sample_parse Map.empty ResultsPage_initial)"
proof -
  have k1: "KundaliResults (\<lambda>t. ''1/1/1970'') sample_props = Inr (KundaliResults_jsx sample_props (Str ''1/1/1970''))"
    by (simp add: KundaliResults_def sample_props_def get_prop_def)
  have k2: "KundaliResults (\<lambda>t. ''1/1/1970'') ravi_props = Inr (KundaliResults_jsx ravi_props (Str ''Not specified''))"
    by (simp add: KundaliResults_def ravi_props_def get_prop_def)
  have b1: "birthDate_text (KundaliResults_jsx sample_props (Str ''1/1/1970'')) = Str ''1/1/1970''"
    and b2: "birthDate_text (KundaliResults_jsx ravi_props (Str ''Not specified'')) = Str ''Not specified''"
    by (simp_all add: KundaliResults_jsx_def)
  have g1: "truthy (get_prop sample_props ''showChart'')"
    and n1: "get_prop sample_props ''name'' = Str ''Asha''"
    by (simp_all add: sample_props_def get_prop_def)
  have g2: "truthy (get_prop ravi_props ''showChart'')"
    and n2: "get_prop ravi_props ''name'' = Str ''Ravi''"
    by (simp_all add: ravi_props_def get_prop_def)
  have g3: "\<not> truthy (get_prop Map.empty ''showChart'')"
    and n3: "get_prop Map.empty ''showChart'' = Undefined"
    and d3: "is_date_or_undefined (get_prop Map.empty ''date'')"
    by (simp_all add: get_prop_def)
  note t = results_are_fixtures[where fmt = "\<lambda>t. ''1/1/1970''" and props = sample_props
      and v = "KundaliResults_jsx sample_props (Str ''1/1/1970'')"
      and fmt' = "\<lambda>t. ''1/1/1970''" and props' = ravi_props
      and v' = "KundaliResults_jsx ravi_props (Str ''Not specified'')"
      and parse = sample_parse and storage = "[''kundaliFormData'' \<mapsto> ''{Asha'']"
      and st = ResultsPage_initial and parse' = sample_parse and storage' = Map.empty
      and st' = ResultsPage_initial]
  note a = t[THEN conjunct1, THEN mp, OF k1]
  note b = t[THEN conjunct2, THEN conjunct1, THEN mp, OF conjI[OF k1 k2]]
  note d = t[THEN conjunct2, THEN conjunct2, THEN conjunct2]
  note c1 = a[THEN conjunct2, THEN conjunct2, THEN conjunct2, THEN conjunct2, THEN conjunct2, THEN conjunct2, THEN conjunct2, unfolded if_P[OF g1] n1]
  note h1 = a[THEN conjunct2, THEN conjunct2, THEN conjunct2, THEN conjunct1]
  note t' = results_are_fixtures[where fmt = "\<lambda>t. ''1/1/1970''" and props = ravi_props
      and v = "KundaliResults_jsx ravi_props (Str ''Not specified'')"]
  note c2 = t'[THEN conjunct1, THEN mp, OF k2, THEN conjunct2, THEN conjunct2, THEN conjunct2, THEN conjunct2, THEN conjunct2, THEN conjunct2, THEN conjunct2, unfolded if_P[OF g2] n2]
  note u = results_are_fixtures[where fmt = "\<lambda>t. ''1/1/1970''" and props = Map.empty]
  from u[THEN conjunct2, THEN conjunct2, THEN conjunct1, THEN mp, OF d3]
  obtain w where w: "KundaliResults (\<lambda>t. ''1/1/1970'') Map.empty = Inr w" ..
  note x = results_are_fixtures[where fmt = "\<lambda>t. ''1/1/1970''" and props = Map.empty
      and v = w, THEN conjunct1, THEN mp, OF w]
  note c3 = x[THEN conjunct2, THEN conjunct2, THEN conjunct2, THEN conjunct2, THEN conjunct2, THEN conjunct2, THEN conjunct2,
      unfolded if_not_P[OF g3], unfolded n3]
  note h3 = x[THEN conjunct2, THEN conjunct2, THEN conjunct2, THEN conjunct1]
  have e: "\<exists>w. KundaliResults (\<lambda>t. ''1/1/1970'') Map.empty = Inr w \<and> chart w = Inl Undefined \<and>
      houses_table w =
     [(1, ''Aries'', ''Sun''), (2, ''Taurus'', ''Moon''), (3, ''Gemini'', ''-''),
      (4, ''Cancer'', ''-''), (5, ''Leo'', ''Jupiter''), (6, ''Virgo'', ''Rahu''),
      (7, ''Libra'', ''-''), (8, ''Scorpio'', ''Saturn''), (9, ''Sagittarius'', ''-''),
      (10, ''Capricorn'', ''Mars''), (11, ''Aquarius'', ''Venus''),
      (12, ''Pisces'', ''Mercury, Ketu'')]"
    by (intro exI[of _ w] conjI) (rule w c3 h3)+
  have p1: "heading (ResultsPage_loaded sample_parse [''kundaliFormData'' \<mapsto> ''{Asha''] ResultsPage_initial) =
      Content (Str ''Asha'')"
    and p2: "heading (ResultsPage_loaded sample_parse Map.empty ResultsPage_initial) = Content (Str ''User'')"
    by (simp_all add: ResultsPage_loaded_def ResultsPage_def ResultsPage_timer_def
        ResultsPage_initial_def sample_parse_def get_prop_def)
  note q = d[THEN conjunct2, THEN conjunct2, THEN conjunct2, THEN conjunct1]
  note s = d[THEN conjunct2, THEN conjunct2, THEN conjunct2, THEN conjunct2, THEN conjunct2, THEN conjunct2, THEN conjunct2, THEN conjunct2, THEN conjunct2, THEN conjunct2, THEN conjunct2, THEN conjunct2]
  show ?thesis
    by (intro conjI) (rule k1 k2 b1 b2 c1 c2 h1 e p1 p2 q
        b[THEN conjunct1] b[THEN conjunct2, THEN conjunct1] b[THEN conjunct2, THEN conjunct2, THEN conjunct1] b[THEN conjunct2, THEN conjunct2, THEN conjunct2, THEN conjunct1]
        s[THEN conjunct1] s[THEN conjunct2, THEN conjunct1] s[THEN conjunct2, THEN conjunct2, THEN conjunct1] s[THEN conjunct2, THEN conjunct2, THEN conjunct2])+
qed


section \<open>Local storage\<close>













section \<open>The form data keeps its declared type\<close>

text \<open>
  The hypothesis \<open>FormData_typed\<close> of the theorems on validation holds wherever the form can
  be: in the initial state, after a reset, and after every update the step components make.
\<close>

lemma get_prop_upd: "get_prop (fd(f \<mapsto> v)) k = (if k = f then v else get_prop fd k)"
  by (simp add: get_prop_def)

lemma updateFormData_typed:
  assumes "FormData_typed (formData s)" and "typed_update f v"
  shows "FormData_typed (formData (updateFormData f v s))"
proof -
  have fd: "formData (updateFormData f v s) = (formData s)(f \<mapsto> v)"
    by (simp add: updateFormData_def handleUpdateFormData_formData)
  show ?thesis
    using assms unfolding fd FormData_typed_def typed_update_def get_prop_upd
    by (auto split: if_splits)
qed

lemma handleNext_formData:
  assumes "handleNext s = Inr (s', effs)"
  shows "formData s' = formData s"
proof (cases "validateCurrentStep s")
  case (Inl e)
  then show ?thesis using assms by (simp add: handleNext_def)
next
  case (Inr r)
  obtain s1 ok where r: "r = (s1, ok)" by (cases r)
  note v = validate_frame[OF Inr[unfolded r]]
  show ?thesis
  proof (cases "ok \<and> \<not> currentStep s < int (length steps) - 1")
    case True
    then have "handleSubmit s1 = Inr (s', effs)" using assms Inr r by (simp add: handleNext_def)
    then obtain s2 ok2 where "validateCurrentStep s1 = Inr (s2, ok2)" "s' = s2"
      by (auto simp: handleSubmit_def split: sum.splits prod.splits if_splits)
    then show ?thesis using validate_frame[of s1 s2 ok2] v by simp
  next
    case False
    then show ?thesis using assms Inr r v by (auto simp: handleNext_def split: if_splits)
  qed
qed

lemma dispatch_typed:
  assumes "FormData_typed (formData s)" and "typed_event e"
  shows "FormData_typed (formData (fst (dispatch js e s)))"
proof (cases e)
  case Next
  show ?thesis
  proof (cases "handleNext s")
    case (Inl x) then show ?thesis using Next assms by simp
  next
    case (Inr r)
    obtain s' effs where "r = (s', effs)" by (cases r)
    with Inr handleNext_formData[of s s' effs] Next assms show ?thesis by simp
  qed
next
  case Back
  then show ?thesis using assms by (simp add: handlePrevious_def)
next
  case Reset
  then show ?thesis by (simp add: handleReset_def initial_typed)
next
  case SaveProgress
  then show ?thesis using assms by (simp add: handleSaveProgress_def)
next
  case (Update f v)
  then show ?thesis using assms by (simp add: updateFormData_typed)
qed

lemma form_run_typed:
  "FormData_typed (formData s) \<Longrightarrow> list_all typed_event evs \<Longrightarrow>
   FormData_typed (formData (form_run js evs s))"
  by (induction evs arbitrary: s) (simp_all add: dispatch_typed)

lemma handleLocationSelect_typed:
  assumes "FormData_typed (formData c)"
  shows "FormData_typed (formData (fst (handleLocationSelect l (c, v))))"
  using assms unfolding handleLocationSelect_formData FormData_typed_def get_prop_upd
  by simp

end
